theory Spec2Isabelle
  imports Complex_Main "HOL-Library.Word"
begin

unbundle bit_operations_syntax

section \<open>Strings\<close>

text \<open>
  JavaScript strings are modelled as HOL strings; a character is one code unit in the
  range 0..255. \<open>trim\<close> removes the white space of that range from both ends,
  \<open>toLowerCase\<close> maps the upper-case letters of that range.
\<close>

definition is_space :: "char \<Rightarrow> bool" where
  "is_space c = (let n = (of_char c :: nat) in (9 \<le> n \<and> n \<le> 13) \<or> n = 32 \<or> n = 160)"

definition trim :: "string \<Rightarrow> string" where
  "trim s = rev (dropWhile is_space (rev (dropWhile is_space s)))"

definition lower_char :: "char \<Rightarrow> char" where
  "lower_char c =
     (let n = (of_char c :: nat)
      in if (65 \<le> n \<and> n \<le> 90) \<or> (192 \<le> n \<and> n \<le> 222 \<and> n \<noteq> 215)
         then char_of (n + 32) else c)"

definition toLowerCase :: "string \<Rightarrow> string" where
  "toLowerCase s = map lower_char s"

section \<open>Human verification challenge (lib/humanVerification.js)\<close>

record challenge =
  question :: string
  answer :: string
  timestamp :: int

text \<open>The object a verification returns: \<open>{success: true}\<close> or \<open>{success: false, error}\<close>.\<close>

datatype verdict = Success | Failure string

text \<open>\<open>verifyMathChallenge\<close> returns the bare boolean \<open>false\<close> on its first guard.\<close>

datatype math_verdict = Bare_false | Object verdict

definition fiveMinutes :: int where
  "fiveMinutes = 5 * 60 * 1000"

text \<open>
  \<open>now\<close> is the value of \<open>Date.now()\<close>; a missing challenge (\<open>null\<close>) is \<open>None\<close>,
  and the empty string is the falsy answer.
\<close>

definition verifyMathChallenge :: "int \<Rightarrow> challenge option \<Rightarrow> string \<Rightarrow> math_verdict" where
  "verifyMathChallenge now ch userAnswer =
     (case ch of
        None \<Rightarrow> Bare_false
      | Some c \<Rightarrow>
          if userAnswer = [] then Bare_false
          else if now - timestamp c > fiveMinutes
            then Object (Failure ''Verification expired. Please try again.'')
          else if trim userAnswer = answer c then Object Success
          else Object (Failure ''Incorrect answer. Please try again.''))"

definition verifyImageChallenge :: "int \<Rightarrow> challenge option \<Rightarrow> string \<Rightarrow> verdict" where
  "verifyImageChallenge now ch userAnswer =
     (case ch of
        None \<Rightarrow> Failure ''Invalid challenge or answer''
      | Some c \<Rightarrow>
          if userAnswer = [] then Failure ''Invalid challenge or answer''
          else if now - timestamp c > fiveMinutes
            then Failure ''Verification expired. Please try again.''
          else if toLowerCase (trim userAnswer) = toLowerCase (answer c) then Success
          else Failure ''Incorrect answer. Please try again.'')"

section \<open>Rate limiter (lib/rateLimiter.js)\<close>

record attempts_entry =
  attempts :: "int list"
  lastReset :: int

type_synonym attempt_store = "string \<rightharpoonup> attempts_entry"

definition RATE_LIMIT_WINDOW :: int where
  "RATE_LIMIT_WINDOW = 60 * 60 * 1000"

definition MAX_ATTEMPTS :: nat where
  "MAX_ATTEMPTS = 5"

text \<open>
  The status object; the three numeric fields are absent when no identifier was given.
\<close>

record rate_limit_status =
  limited :: bool
  remainingAttempts :: "int option"
  timeUntilReset :: "int option"
  resetTime :: "int option"

definition checkRateLimit ::
  "string \<Rightarrow> int \<Rightarrow> attempt_store \<Rightarrow> rate_limit_status \<times> attempt_store" where
  "checkRateLimit identifier now store =
     (if identifier = [] then
        (\<lparr>limited = False, remainingAttempts = None, timeUntilReset = None, resetTime = None\<rparr>,
         store)
      else
        let userAttempts =
              (case store identifier of
                 Some e \<Rightarrow> e
               | None \<Rightarrow> \<lparr>attempts = [], lastReset = now\<rparr>);
            validAttempts = filter (\<lambda>t. now - t < RATE_LIMIT_WINDOW) (attempts userAttempts);
            userAttempts =
              (if now - lastReset userAttempts \<ge> RATE_LIMIT_WINDOW
               then userAttempts\<lparr>lastReset := now, attempts := []\<rparr>
               else userAttempts\<lparr>attempts := validAttempts\<rparr>);
            isLimited = (length (attempts userAttempts) \<ge> MAX_ATTEMPTS);
            remaining = max 0 (int MAX_ATTEMPTS - int (length (attempts userAttempts)));
            reset = lastReset userAttempts + RATE_LIMIT_WINDOW;
            until = max 0 (reset - now)
        in (\<lparr>limited = isLimited, remainingAttempts = Some remaining,
             timeUntilReset = Some until, resetTime = Some reset\<rparr>,
            store(identifier \<mapsto> userAttempts)))"

definition recordAttempt :: "string \<Rightarrow> int \<Rightarrow> attempt_store \<Rightarrow> attempt_store" where
  "recordAttempt identifier now store =
     (if identifier = [] then store
      else
        let userAttempts =
              (case store identifier of
                 Some e \<Rightarrow> e
               | None \<Rightarrow> \<lparr>attempts = [], lastReset = now\<rparr>)
        in store(identifier \<mapsto> userAttempts\<lparr>attempts := attempts userAttempts @ [now]\<rparr>))"

section \<open>Booking reference (lib/emailService.js)\<close>

text \<open>
  \<open>Number.prototype.toString(radix)\<close> for integers: the digits of the absolute value in
  the radix (2 to 36), after a minus sign for a negative number.
\<close>

definition digit_chars :: string where
  "digit_chars = ''0123456789abcdefghijklmnopqrstuvwxyz''"

fun to_radix :: "nat \<Rightarrow> nat \<Rightarrow> string" where
  "to_radix r n = (if r < 2 then []
                   else if n < r then [digit_chars ! n]
                   else to_radix r (n div r) @ [digit_chars ! (n mod r)])"

declare to_radix.simps [simp del]

definition toString :: "nat \<Rightarrow> int \<Rightarrow> string" where
  "toString r i = (if i < 0 then CHR ''-'' # to_radix r (nat (- i)) else to_radix r (nat i))"

definition padStart :: "nat \<Rightarrow> string \<Rightarrow> string \<Rightarrow> string" where
  "padStart targetLength padString s =
     (if targetLength \<le> length s \<or> padString = [] then s
      else take (targetLength - length s) (concat (replicate (targetLength - length s) padString)) @ s)"

definition charAt :: "string \<Rightarrow> nat \<Rightarrow> string" where
  "charAt s i = (if i < length s then [s ! i] else [])"

text \<open>
  What the getters of \<open>new Date()\<close> return: the full year, the month counted from 0 and
  the day of the month.
\<close>

record js_date =
  getFullYear :: int
  getMonth :: int
  getDate :: int

definition characters :: string where
  "characters = ''ABCDEFGHIJKLMNOPQRSTUVWXYZ0123456789''"

text \<open>
  \<open>random i\<close> is the value of the \<open>i\<close>-th call of \<open>Math.random()\<close> in the loop, a number
  in the interval from 0 (included) to 1 (excluded).
\<close>

definition generateBookingReference :: "js_date \<Rightarrow> (nat \<Rightarrow> real) \<Rightarrow> string" where
  "generateBookingReference now random =
     (let datePart = toString 10 (getFullYear now)
                     @ padStart 2 ''0'' (toString 10 (getMonth now + 1))
                     @ padStart 2 ''0'' (toString 10 (getDate now));
          suffix = concat (map (\<lambda>i. charAt characters (nat \<lfloor>random i * real (length characters)\<rfloor>)) [0..<4])
      in ''ADR-'' @ datePart @ ''-'' @ suffix)"

text \<open>The pattern \<open>ADR-YYYYMMDD-XXXX\<close>, as the specification words it.\<close>

definition is_digit :: "char \<Rightarrow> bool" where
  "is_digit c = (48 \<le> (of_char c :: nat) \<and> (of_char c :: nat) \<le> 57)"

definition is_upper :: "char \<Rightarrow> bool" where
  "is_upper c = (65 \<le> (of_char c :: nat) \<and> (of_char c :: nat) \<le> 90)"

definition decimal_value :: "string \<Rightarrow> nat" where
  "decimal_value s = foldl (\<lambda>a c. 10 * a + (of_char c - 48)) 0 s"

definition matches_reference_pattern :: "string \<Rightarrow> bool" where
  "matches_reference_pattern s =
     (length s = 17 \<and> take 4 s = ''ADR-''
      \<and> list_all is_digit (take 8 (drop 4 s))
      \<and> take 1 (drop 12 s) = ''-''
      \<and> list_all (\<lambda>c. is_upper c \<or> is_digit c) (drop 13 s))"

section \<open>The hosted backend and its two clients (lib/supabase.js)\<close>

text \<open>
  The tables of the backend, with the columns the code reads and writes (the creation and
  update timestamps of the rows are left out). Times are milliseconds since the epoch;
  a \<open>slot_id\<close> that is \<open>null\<close> is \<open>None\<close>.
\<close>

record slot =
  id_slot :: string
  start_time :: int
  end_time :: int
  is_available :: bool

record reservation =
  id_reservation :: string
  slot_id :: "string option"
  user_name :: string
  user_email :: string
  group_id :: string
  notes_reservation :: string
  reference :: string
  status :: string
  status_reason :: string

record user_row =
  id_user :: string
  email_user :: string
  name_user :: string
  group_id_user :: string

record backend =
  slots :: "slot list"
  reservations :: "reservation list"
  users :: "user_row list"
  settings :: "(string \<times> string) list"

text \<open>The error object of a query (\<open>PostgrestError\<close>): a code and a message.\<close>

record pg_error =
  code :: string
  message :: string

text \<open>
  What a JavaScript \<open>throw\<close> or a rejected promise carries in this code: a query error
  thrown as it is, an \<open>Error\<close> with its message, or the response object with which
  \<open>emailjs.send\<close> rejects (a status and a text, no message).
\<close>

datatype js_exn = Pg pg_error | JsError string | EmailStatus int string

fun exn_message :: "js_exn \<Rightarrow> string option" where
  "exn_message (Pg e) = Some (message e)"
| "exn_message (JsError m) = Some m"
| "exn_message (EmailStatus s t) = None"

fun exn_code :: "js_exn \<Rightarrow> string option" where
  "exn_code (Pg e) = Some (code e)"
| "exn_code (JsError m) = None"
| "exn_code (EmailStatus s t) = None"

text \<open>
  A client is the backend seen with one key. The backend may refuse an operation on a
  table with an error (row-level security answers a refused write with code 42501; a
  network failure is an error too), and a row-level policy may hide slots from the
  client's \<open>select\<close>. \<open>adminSupabase\<close> is \<open>None\<close> when no service key is configured.
\<close>

datatype table = Slots | Reservations | Users | Settings

datatype verb = Select | Insert | Update | Delete

record client =
  refuses :: "table \<Rightarrow> verb \<Rightarrow> pg_error option"
  sees_slot :: "slot \<Rightarrow> bool"

record clients =
  supabase :: client
  adminSupabase :: "client option"

text \<open>
  The row-level policy of supabase/init.sql for reading the slots table with the public
  key: 'Allow public read access to available slots', \<open>USING (is_available = true)\<close>.
  The service-role key bypasses row-level security.
\<close>

definition public_read_policy :: "slot \<Rightarrow> bool" where
  "public_read_policy s = (is_available s = True)"

text \<open>
  Three clients used in the examples: one that the backend refuses nothing and hides
  nothing (the service-role key), one whose every operation is refused with code 42501,
  and the public key under the policy above.
\<close>

definition unrestricted :: client where
  "unrestricted = \<lparr>refuses = (\<lambda>t v. None), sees_slot = (\<lambda>s. True)\<rparr>"

definition denied :: client where
  "denied = \<lparr>refuses = (\<lambda>t v. Some \<lparr>code = ''42501'', message = ''permission denied''\<rparr>),
             sees_slot = (\<lambda>s. True)\<rparr>"

definition public_key :: client where
  "public_key = \<lparr>refuses = (\<lambda>t v. None), sees_slot = public_read_policy\<rparr>"

text \<open>\<open>.single()\<close>: exactly one row, or the error PGRST116.\<close>

definition single :: "'a list \<Rightarrow> pg_error + 'a" where
  "single rows =
     (case rows of
        [r] \<Rightarrow> Inr r
      | _ \<Rightarrow> Inl \<lparr>code = ''PGRST116'',
                  message = ''JSON object requested, multiple (or no) rows returned''\<rparr>)"

definition select_slots :: "client \<Rightarrow> backend \<Rightarrow> (slot \<Rightarrow> bool) \<Rightarrow> pg_error + slot list" where
  "select_slots c db cond =
     (case refuses c Slots Select of
        Some e \<Rightarrow> Inl e
      | None \<Rightarrow> Inr (filter (\<lambda>s. sees_slot c s \<and> cond s) (slots db)))"

definition update_slots ::
  "client \<Rightarrow> backend \<Rightarrow> (slot \<Rightarrow> bool) \<Rightarrow> (slot \<Rightarrow> slot) \<Rightarrow> pg_error + (slot list \<times> backend)" where
  "update_slots c db cond change =
     (case refuses c Slots Update of
        Some e \<Rightarrow> Inl e
      | None \<Rightarrow>
          Inr (map change (filter cond (slots db)),
               db\<lparr>slots := map (\<lambda>s. if cond s then change s else s) (slots db)\<rparr>))"

definition select_reservations ::
  "client \<Rightarrow> backend \<Rightarrow> (reservation \<Rightarrow> bool) \<Rightarrow> pg_error + reservation list" where
  "select_reservations c db cond =
     (case refuses c Reservations Select of
        Some e \<Rightarrow> Inl e
      | None \<Rightarrow> Inr (filter cond (reservations db)))"

definition insert_reservation ::
  "client \<Rightarrow> backend \<Rightarrow> reservation \<Rightarrow> pg_error + (reservation list \<times> backend)" where
  "insert_reservation c db row =
     (case refuses c Reservations Insert of
        Some e \<Rightarrow> Inl e
      | None \<Rightarrow> Inr ([row], db\<lparr>reservations := reservations db @ [row]\<rparr>))"

definition update_reservations ::
  "client \<Rightarrow> backend \<Rightarrow> (reservation \<Rightarrow> bool) \<Rightarrow> (reservation \<Rightarrow> reservation)
     \<Rightarrow> pg_error + (reservation list \<times> backend)" where
  "update_reservations c db cond change =
     (case refuses c Reservations Update of
        Some e \<Rightarrow> Inl e
      | None \<Rightarrow>
          Inr (map change (filter cond (reservations db)),
               db\<lparr>reservations := map (\<lambda>r. if cond r then change r else r) (reservations db)\<rparr>))"

definition delete_reservations ::
  "client \<Rightarrow> backend \<Rightarrow> (reservation \<Rightarrow> bool) \<Rightarrow> pg_error + backend" where
  "delete_reservations c db cond =
     (case refuses c Reservations Delete of
        Some e \<Rightarrow> Inl e
      | None \<Rightarrow> Inr (db\<lparr>reservations := filter (\<lambda>r. \<not> cond r) (reservations db)\<rparr>))"

definition select_users :: "client \<Rightarrow> backend \<Rightarrow> (user_row \<Rightarrow> bool) \<Rightarrow> pg_error + user_row list" where
  "select_users c db cond =
     (case refuses c Users Select of
        Some e \<Rightarrow> Inl e
      | None \<Rightarrow> Inr (filter cond (users db)))"

definition insert_user :: "client \<Rightarrow> backend \<Rightarrow> user_row \<Rightarrow> pg_error + (user_row list \<times> backend)" where
  "insert_user c db row =
     (case refuses c Users Insert of
        Some e \<Rightarrow> Inl e
      | None \<Rightarrow> Inr ([row], db\<lparr>users := users db @ [row]\<rparr>))"

definition update_users ::
  "client \<Rightarrow> backend \<Rightarrow> (user_row \<Rightarrow> bool) \<Rightarrow> (user_row \<Rightarrow> user_row)
     \<Rightarrow> pg_error + (user_row list \<times> backend)" where
  "update_users c db cond change =
     (case refuses c Users Update of
        Some e \<Rightarrow> Inl e
      | None \<Rightarrow>
          Inr (map change (filter cond (users db)),
               db\<lparr>users := map (\<lambda>u. if cond u then change u else u) (users db)\<rparr>))"

definition select_settings :: "client \<Rightarrow> backend \<Rightarrow> string \<Rightarrow> pg_error + string list" where
  "select_settings c db k =
     (case refuses c Settings Select of
        Some e \<Rightarrow> Inl e
      | None \<Rightarrow> Inr (map snd (filter (\<lambda>row. fst row = k) (settings db))))"

text \<open>The truth value of a string that may be \<open>null\<close>: \<open>null\<close> and the empty string are falsy.\<close>

definition truthy :: "string option \<Rightarrow> bool" where
  "truthy v = (case v of None \<Rightarrow> False | Some s \<Rightarrow> s \<noteq> [])"

subsection \<open>Slot queries\<close>

definition slots_in_range :: "client \<Rightarrow> backend \<Rightarrow> int \<Rightarrow> int \<Rightarrow> pg_error + slot list" where
  "slots_in_range c db startDate endDate =
     map_sum (\<lambda>e. e) (sort_key start_time)
       (select_slots c db (\<lambda>s. startDate \<le> start_time s \<and> end_time s \<le> endDate))"

definition getAvailableSlots :: "clients \<Rightarrow> backend \<Rightarrow> int \<Rightarrow> int \<Rightarrow> js_exn + slot list" where
  "getAvailableSlots cl db startDate endDate =
     (case slots_in_range (supabase cl) db startDate endDate of
        Inl error \<Rightarrow>
          if code error = ''42501'' \<and> adminSupabase cl \<noteq> None then
            (case slots_in_range (the (adminSupabase cl)) db startDate endDate of
               Inl adminError \<Rightarrow> Inl (Pg adminError)
             | Inr adminData \<Rightarrow> Inr adminData)
          else Inl (Pg error)
      | Inr data \<Rightarrow> Inr data)"

definition slot_availability :: "client \<Rightarrow> backend \<Rightarrow> string \<Rightarrow> pg_error + bool" where
  "slot_availability c db slotId =
     (case select_slots c db (\<lambda>s. id_slot s = slotId) of
        Inl e \<Rightarrow> Inl e
      | Inr rows \<Rightarrow> map_sum (\<lambda>e. e) is_available (single rows))"

definition verifySlotAvailability :: "clients \<Rightarrow> backend \<Rightarrow> string \<Rightarrow> js_exn + bool" where
  "verifySlotAvailability cl db slotId =
     (case slot_availability (supabase cl) db slotId of
        Inl error \<Rightarrow>
          if code error = ''42501'' \<and> adminSupabase cl \<noteq> None then
            (case slot_availability (the (adminSupabase cl)) db slotId of
               Inl adminError \<Rightarrow> Inl (Pg adminError)
             | Inr available \<Rightarrow> Inr available)
          else Inl (Pg error)
      | Inr available \<Rightarrow> Inr available)"

text \<open>
  \<open>now\<close> is the current time and \<open>futureDate\<close> the same time one month later, as
  \<open>setMonth\<close> computes it.
\<close>

definition getClosestAvailableSlot ::
  "clients \<Rightarrow> backend \<Rightarrow> int \<Rightarrow> int \<Rightarrow> js_exn + slot option" where
  "getClosestAvailableSlot cl db now futureDate =
     (case select_slots (supabase cl) db
             (\<lambda>s. now \<le> start_time s \<and> start_time s \<le> futureDate \<and> is_available s = True) of
        Inl error \<Rightarrow> Inl (Pg error)
      | Inr rows \<Rightarrow>
          (let data = take 1 (sort_key start_time rows)
           in Inr (if length data > 0 then Some (data ! 0) else None)))"

text \<open>\<open>checkSlotsExist\<close>: the count of the available slots that start at or after \<open>now\<close>.\<close>

definition checkSlotsExist :: "clients \<Rightarrow> backend \<Rightarrow> int \<Rightarrow> js_exn + bool" where
  "checkSlotsExist cl db now =
     (case select_slots (supabase cl) db (\<lambda>s. now \<le> start_time s \<and> is_available s = True) of
        Inl error \<Rightarrow> Inl (Pg error)
      | Inr rows \<Rightarrow> Inr (int (length rows) > 0))"

definition resetSlotAvailability :: "clients \<Rightarrow> backend \<Rightarrow> string \<Rightarrow> js_exn + (slot option \<times> backend)" where
  "resetSlotAvailability cl db slotId =
     (case adminSupabase cl of
        None \<Rightarrow> Inl (JsError
          ''Admin access is required to reset slot availability. Service key not configured.'')
      | Some admin \<Rightarrow>
          (case update_slots admin db (\<lambda>s. id_slot s = slotId) (\<lambda>s. s\<lparr>is_available := True\<rparr>) of
             Inl error \<Rightarrow> Inl (Pg error)
           | Inr (data, db') \<Rightarrow> Inr (if data = [] then None else Some (hd data), db')))"

subsection \<open>Reservation lifecycle\<close>

definition updateReservationStatus ::
  "clients \<Rightarrow> backend \<Rightarrow> string \<Rightarrow> string \<Rightarrow> string \<Rightarrow> js_exn + (reservation option \<times> backend)" where
  "updateReservationStatus cl db reservationId new_status reason =
     (case adminSupabase cl of
        None \<Rightarrow> Inl (JsError
          ''Admin access is required to update reservation status. Service key not configured.'')
      | Some admin \<Rightarrow>
          (case update_reservations admin db (\<lambda>r. id_reservation r = reservationId)
                  (\<lambda>r. r\<lparr>status := new_status, status_reason := reason\<rparr>) of
             Inl error \<Rightarrow> Inl (Pg error)
           | Inr (data, db') \<Rightarrow> Inr (if data = [] then None else Some (hd data), db')))"

text \<open>
  \<open>deleteReservation\<close> makes three calls one after the other; an error in a later call
  leaves the effect of the earlier ones in the backend, so the backend is returned with the
  exception too.
\<close>

definition deleteReservation ::
  "clients \<Rightarrow> backend \<Rightarrow> string \<Rightarrow> (js_exn + reservation) \<times> backend" where
  "deleteReservation cl db reservationId =
     (case adminSupabase cl of
        None \<Rightarrow> (Inl (JsError
          ''Admin access is required to delete reservations. Service key not configured.''), db)
      | Some admin \<Rightarrow>
          (case select_reservations admin db (\<lambda>r. id_reservation r = reservationId) of
             Inl fetchError \<Rightarrow> (Inl (Pg fetchError), db)
           | Inr rows \<Rightarrow>
               (case single rows of
                  Inl fetchError \<Rightarrow> (Inl (Pg fetchError), db)
                | Inr found \<Rightarrow>
                    (case delete_reservations admin db (\<lambda>r. id_reservation r = reservationId) of
                       Inl deleteError \<Rightarrow> (Inl (Pg deleteError), db)
                     | Inr db' \<Rightarrow>
                         if truthy (slot_id found) then
                           (case resetSlotAvailability cl db' (the (slot_id found)) of
                              Inl err \<Rightarrow> (Inl err, db')
                            | Inr (_, db'') \<Rightarrow> (Inr found, db''))
                         else (Inr found, db')))))"

text \<open>\<open>cancelReservation\<close> (lib/userService.js), the cancellation open to the user.\<close>

datatype cancel_result = Cancelled | Cancel_failed string

definition cancelReservation :: "clients \<Rightarrow> backend \<Rightarrow> string \<Rightarrow> cancel_result \<times> backend" where
  "cancelReservation cl db reservationId =
     (case delete_reservations (supabase cl) db (\<lambda>r. id_reservation r = reservationId) of
        Inl error \<Rightarrow> (Cancel_failed (message error), db)
      | Inr db' \<Rightarrow> (Cancelled, db'))"

section \<open>The browser environment\<close>

text \<open>The contact data of the booking form, and the part of it sent to the registration.\<close>

record user_data =
  name :: string
  email :: string
  groupId :: string

record form_data = user_data +
  notes_form :: string

text \<open>
  A signed token (\<open>jose.SignJWT\<close>): the algorithm of the protected header, the claims of
  the payload, the issue and expiry times in seconds, and the secret that signed it.
\<close>

record jwt =
  alg :: string
  payload :: "(string \<times> string) list"
  iat_claim :: int
  exp_claim :: int
  signed_with :: string

text \<open>
  \<open>localStorage\<close> holds text; a stored value is represented by what the text encodes, a
  token or the JSON of the user data.
\<close>

datatype storage_value = Stored_token jwt | Stored_user user_data

type_synonym local_storage = "string \<rightharpoonup> storage_value"

record email_config =
  EMAIL_SERVICE_ID :: string
  EMAIL_TEMPLATE_ID :: string
  EMAIL_PUBLIC_KEY :: string

record template_params =
  to_name :: string
  to_email :: string
  booking_reference :: string
  booking_date :: string
  booking_time :: string
  booking_duration :: string
  booking_notes :: string
  group_id_param :: string

text \<open>The object \<open>getUserReservationCount\<close> resolves to.\<close>

record reservation_count =
  success :: bool
  count :: int

text \<open>
  Everything the code obtains from outside the repository:
  \<^item> the clock (\<open>Date.now()\<close>, in milliseconds), the time zone of the browser as
    the function \<open>LocalTZA(t, isUTC)\<close> of the language standard (the offset of local
    time in milliseconds, at the UTC time \<open>t\<close> when \<open>isUTC\<close> is true and at the
    local time \<open>t\<close> otherwise), the calendar date of the clock and the values of
    \<open>Math.random()\<close>;
  \<^item> the date library: the ISO text of a time, the parsing of a date text (\<open>None\<close> is
    an invalid date) and the two locale formats;
  \<^item> the signing secret, and the exception with which signing fails, if it does;
  \<^item> the identifiers the backend gives to an inserted user and reservation;
  \<^item> \<open>getUserReservationCount\<close>, imported by the booking page from lib/supabase.js
    but defined in no source file at hand: its answer for an email address;
  \<^item> the configuration of the email service, the answer of \<open>emailjs.send\<close> (the status
    of the response, or the value it rejects with), and whether the three-second timer of
    the booking page fires before the email function returns.
\<close>

record env =
  env_now :: int
  LocalTZA :: "int \<Rightarrow> bool \<Rightarrow> int"
  env_today :: js_date
  env_random :: "nat \<Rightarrow> real"
  env_iso :: "int \<Rightarrow> string"
  env_parse_date :: "string \<Rightarrow> int option"
  env_format_date :: "int \<Rightarrow> string"
  env_format_time :: "int \<Rightarrow> string"
  JWT_SECRET :: string
  crypto_failure :: "js_exn option"
  new_user_id :: string
  new_reservation_id :: string
  getUserReservationCount :: "string \<Rightarrow> js_exn + reservation_count"
  email_settings :: email_config
  emailjs_send :: "string \<Rightarrow> string \<Rightarrow> template_params \<Rightarrow> js_exn + int"
  email_delayed :: bool

text \<open>
  \<open>new jose.SignJWT(claims).setProtectedHeader({alg: 'HS256'}).setIssuedAt()
  .setExpirationTime(lifetime).sign(secret)\<close>, with the lifetime in seconds.
\<close>

definition sign_jwt :: "env \<Rightarrow> (string \<times> string) list \<Rightarrow> int \<Rightarrow> js_exn + jwt" where
  "sign_jwt e claims lifetime =
     (case crypto_failure e of
        Some err \<Rightarrow> Inl err
      | None \<Rightarrow>
          Inr \<lparr>alg = ''HS256'', payload = claims, iat_claim = env_now e div 1000,
               exp_claim = env_now e div 1000 + lifetime, signed_with = JWT_SECRET e\<rparr>)"

section \<open>Administrator authentication (lib/adminAuth.js)\<close>

definition TOKEN_KEY :: string where
  "TOKEN_KEY = ''admin_token''"

definition ADMIN_PASSWORD_KEY :: string where
  "ADMIN_PASSWORD_KEY = ''admin_password_hash''"

text \<open>
  The 32-bit operators of JavaScript on integers: \<open>a << n\<close> and \<open>a & b\<close> convert their
  operands to 32-bit two's complement and give a signed 32-bit result; \<open>+\<close> and \<open>-\<close>
  are exact on the integers that occur here.
\<close>

definition to_int32 :: "int \<Rightarrow> int" where
  "to_int32 x = (x + 2 ^ 31) mod 2 ^ 32 - 2 ^ 31"

definition shift_left32 :: "int \<Rightarrow> nat \<Rightarrow> int" where
  "shift_left32 a n = to_int32 (to_int32 a * 2 ^ (n mod 32))"

definition and32 :: "int \<Rightarrow> int \<Rightarrow> int" where
  "and32 a b = to_int32 a AND to_int32 b"

text \<open>The password is a list of UTF-16 code units; \<open>charCodeAt\<close> reads one.\<close>

fun hash_loop :: "int \<Rightarrow> 16 word list \<Rightarrow> int" where
  "hash_loop hash [] = hash"
| "hash_loop hash (c # cs) =
     (let char = uint c;
          hash = (shift_left32 hash 5 - hash) + char;
          hash = and32 hash hash
      in hash_loop hash cs)"

definition hashPassword :: "16 word list \<Rightarrow> string" where
  "hashPassword password = toString 16 (hash_loop 0 password)"

datatype login_result = Login_ok jwt | Login_failed string

definition loginAdmin ::
  "env \<Rightarrow> clients \<Rightarrow> backend \<Rightarrow> local_storage \<Rightarrow> 16 word list \<Rightarrow> login_result \<times> local_storage" where
  "loginAdmin e cl db storage password =
     (case adminSupabase cl of
        None \<Rightarrow> (Login_failed ''Admin access not available'', storage)
      | Some admin \<Rightarrow>
          (case select_settings admin db ADMIN_PASSWORD_KEY of
             Inl error \<Rightarrow> (Login_failed ''Error retrieving admin credentials'', storage)
           | Inr rows \<Rightarrow>
               (case single rows of
                  Inl error \<Rightarrow> (Login_failed ''Error retrieving admin credentials'', storage)
                | Inr storedHash \<Rightarrow>
                    if storedHash = [] then (Login_failed ''Admin account not set up'', storage)
                    else if hashPassword password = storedHash then
                      (case sign_jwt e [(''role'', ''admin'')] 3600 of
                         Inl err \<Rightarrow> (Login_failed ''Authentication error'', storage)
                       | Inr token \<Rightarrow> (Login_ok token, storage(TOKEN_KEY \<mapsto> Stored_token token)))
                    else (Login_failed ''Invalid password'', storage))))"

text \<open>The hash as the specification words it: 32-bit arithmetic, rendered in hexadecimal.\<close>

definition rolling_hash :: "16 word list \<Rightarrow> 32 word" where
  "rolling_hash password = foldl (\<lambda>hash c. push_bit 5 hash - hash + ucast c) 0 password"

section \<open>Calendar helpers (lib/calendarUtils.js)\<close>

text \<open>
  The time arithmetic of \<open>Date\<close>, as the language standard defines it on time values in
  milliseconds (every time at hand lies within the range of \<open>TimeClip\<close>).
\<close>

definition msPerDay :: int where
  "msPerDay = 86400000"

definition msPerHour :: int where
  "msPerHour = 3600000"

definition Day :: "int \<Rightarrow> int" where
  "Day t = t div msPerDay"

definition HourFromTime :: "int \<Rightarrow> int" where
  "HourFromTime t = (t div msPerHour) mod 24"

definition MinFromTime :: "int \<Rightarrow> int" where
  "MinFromTime t = (t div 60000) mod 60"

definition SecFromTime :: "int \<Rightarrow> int" where
  "SecFromTime t = (t div 1000) mod 60"

definition msFromTime :: "int \<Rightarrow> int" where
  "msFromTime t = t mod 1000"

definition MakeTime :: "int \<Rightarrow> int \<Rightarrow> int \<Rightarrow> int \<Rightarrow> int" where
  "MakeTime hour minute sec ms = hour * msPerHour + minute * 60000 + sec * 1000 + ms"

definition MakeDate :: "int \<Rightarrow> int \<Rightarrow> int" where
  "MakeDate day time = day * msPerDay + time"

definition LocalTime :: "env \<Rightarrow> int \<Rightarrow> int" where
  "LocalTime e t = t + LocalTZA e t True"

definition UTC :: "env \<Rightarrow> int \<Rightarrow> int" where
  "UTC e t = t - LocalTZA e t False"

text \<open>\<open>date.setMinutes(min, sec, ms)\<close>, \<open>date.getHours()\<close> and \<open>date.setHours(hour)\<close>.\<close>

definition setMinutes :: "env \<Rightarrow> int \<Rightarrow> int \<Rightarrow> int \<Rightarrow> int \<Rightarrow> int" where
  "setMinutes e time minute sec ms =
     (let t = LocalTime e time;
          date = MakeDate (Day t) (MakeTime (HourFromTime t) minute sec ms)
      in UTC e date)"

definition getHours :: "env \<Rightarrow> int \<Rightarrow> int" where
  "getHours e time = HourFromTime (LocalTime e time)"

definition setHours :: "env \<Rightarrow> int \<Rightarrow> int \<Rightarrow> int" where
  "setHours e time hour =
     (let t = LocalTime e time;
          date = MakeDate (Day t) (MakeTime hour (MinFromTime t) (SecFromTime t) (msFromTime t))
      in UTC e date)"

text \<open>\<open>startTime\<close> is the time the text of the slot's start denotes.\<close>

definition isSlotDisabled :: "env \<Rightarrow> int \<Rightarrow> bool" where
  "isSlotDisabled e startTime =
     (let now = env_now e;
          slotStart = startTime;
          currentHour = setMinutes e now 0 0 0;
          oneHourFromNow = setHours e currentHour (getHours e currentHour + 1)
      in slotStart \<le> oneHourFromNow)"

text \<open>
  The next full-hour boundary as the specification words it: the current time truncated
  to the hour, plus one hour, in a local time that is \<open>offset\<close> milliseconds ahead of UTC.
\<close>

definition next_full_hour :: "env \<Rightarrow> int \<Rightarrow> int" where
  "next_full_hour e offset = ((env_now e + offset) div 3600000 + 1) * 3600000 - offset"

section \<open>Form validation (lib/validationUtils.js)\<close>

text \<open>
  The regular expressions of the validators, matched by derivatives: \<open>test r s\<close> is
  \<open>r.test(s)\<close> for an expression \<open>r\<close> anchored at both ends.
\<close>

datatype regex = Nothing | Empty | Atom "char \<Rightarrow> bool" | Seq regex regex | Alt regex regex | Star regex

fun nullable :: "regex \<Rightarrow> bool" where
  "nullable Nothing = False"
| "nullable Empty = True"
| "nullable (Atom p) = False"
| "nullable (Seq r s) = (nullable r \<and> nullable s)"
| "nullable (Alt r s) = (nullable r \<or> nullable s)"
| "nullable (Star r) = True"

fun deriv :: "char \<Rightarrow> regex \<Rightarrow> regex" where
  "deriv c Nothing = Nothing"
| "deriv c Empty = Nothing"
| "deriv c (Atom p) = (if p c then Empty else Nothing)"
| "deriv c (Seq r s) =
     (if nullable r then Alt (Seq (deriv c r) s) (deriv c s) else Seq (deriv c r) s)"
| "deriv c (Alt r s) = Alt (deriv c r) (deriv c s)"
| "deriv c (Star r) = Seq (deriv c r) (Star r)"

definition test :: "regex \<Rightarrow> string \<Rightarrow> bool" where
  "test r s = nullable (foldl (\<lambda>r c. deriv c r) r s)"

definition one_or_more :: "regex \<Rightarrow> regex" where
  "one_or_more r = Seq r (Star r)"

definition is_letter :: "char \<Rightarrow> bool" where
  "is_letter c = (let n = (of_char c :: nat) in (65 \<le> n \<and> n \<le> 90) \<or> (97 \<le> n \<and> n \<le> 122))"

text \<open>\<open>/^[^\s@]+@[^\s@]+\.[^\s@]+$/\<close>\<close>

definition emailRegex :: regex where
  "emailRegex =
     Seq (one_or_more (Atom (\<lambda>c. \<not> is_space c \<and> c \<noteq> CHR ''@'')))
    (Seq (Atom (\<lambda>c. c = CHR ''@''))
    (Seq (one_or_more (Atom (\<lambda>c. \<not> is_space c \<and> c \<noteq> CHR ''@'')))
    (Seq (Atom (\<lambda>c. c = CHR ''.''))
         (one_or_more (Atom (\<lambda>c. \<not> is_space c \<and> c \<noteq> CHR ''@''))))))"

text \<open>\<open>/^[a-zA-Z\s'-]+$/\<close>\<close>

definition nameRegex :: regex where
  "nameRegex =
     one_or_more (Atom (\<lambda>c. is_letter c \<or> is_space c \<or> c = CHR 0x27 \<or> c = CHR ''-''))"

text \<open>\<open>/^[a-zA-Z0-9_-]+$/\<close>\<close>

definition groupIdRegex :: regex where
  "groupIdRegex =
     one_or_more (Atom (\<lambda>c. is_letter c \<or> is_digit c \<or> c = CHR ''_'' \<or> c = CHR ''-''))"

text \<open>A validation result: success, or an error message with the field it concerns.\<close>

datatype validation = Valid | Invalid string string

definition validateEmail :: "string \<Rightarrow> validation" where
  "validateEmail address =
     (if address = [] \<or> trim address = [] then Invalid ''Email is required'' ''email''
      else if \<not> test emailRegex address
        then Invalid ''Please enter a valid email address'' ''email''
      else Valid)"

definition validateName :: "string \<Rightarrow> validation" where
  "validateName full_name =
     (if full_name = [] \<or> trim full_name = [] then Invalid ''Name is required'' ''name''
      else if length (trim full_name) < 2
        then Invalid ''Name must be at least 2 characters'' ''name''
      else if \<not> test nameRegex full_name
        then Invalid ''Name contains invalid characters'' ''name''
      else Valid)"

definition validateGroupId :: "string \<Rightarrow> validation" where
  "validateGroupId gid =
     (if gid = [] \<or> trim gid = [] then Valid
      else if \<not> test groupIdRegex gid
        then Invalid ''Group ID contains invalid characters'' ''groupId''
      else Valid)"

definition validateNotes :: "string \<Rightarrow> validation" where
  "validateNotes note_text =
     (if note_text = [] \<or> trim note_text = [] then Valid
      else if length note_text > 500
        then Invalid ''Notes must be less than 500 characters'' ''notes''
      else Valid)"

definition validateBookingForm :: "form_data \<Rightarrow> validation" where
  "validateBookingForm fd =
     (case validateEmail (email fd) of
        Invalid msg field \<Rightarrow> Invalid msg field
      | Valid \<Rightarrow>
     (case validateName (name fd) of
        Invalid msg field \<Rightarrow> Invalid msg field
      | Valid \<Rightarrow>
     (case validateGroupId (groupId fd) of
        Invalid msg field \<Rightarrow> Invalid msg field
      | Valid \<Rightarrow>
     (case validateNotes (notes_form fd) of
        Invalid msg field \<Rightarrow> Invalid msg field
      | Valid \<Rightarrow> Valid))))"

section \<open>User registration (lib/userService.js)\<close>

definition USER_TOKEN_KEY :: string where
  "USER_TOKEN_KEY = ''user_token''"

definition USER_DATA_KEY :: string where
  "USER_DATA_KEY = ''userData''"

text \<open>
  The object \<open>registerUser\<close> resolves to: the user data, the token, the user's identifier
  and whether the user is new; or the message of the error that was caught.
\<close>

datatype registration = Registered user_data jwt string bool | Registration_failed "string option"

text \<open>\<open>generateUserToken\<close>: a token for thirty days, also put in \<open>localStorage\<close>.\<close>

definition generateUserToken ::
  "env \<Rightarrow> local_storage \<Rightarrow> user_data \<Rightarrow> string \<Rightarrow> (js_exn + jwt) \<times> local_storage" where
  "generateUserToken e storage userData userId =
     (case sign_jwt e [(''role'', ''user''), (''id'', userId), (''email'', email userData),
                        (''name'', name userData)] (30 * 24 * 60 * 60) of
        Inl err \<Rightarrow> (Inl err, storage)
      | Inr token \<Rightarrow> (Inr token, storage(USER_TOKEN_KEY \<mapsto> Stored_token token)))"

text \<open>
  The body of the \<open>try\<close> block of \<open>registerUser\<close>. What the calls made before an
  exception have written stays written, so the backend and the storage are returned in
  every case.
\<close>

definition register_body ::
  "env \<Rightarrow> clients \<Rightarrow> backend \<Rightarrow> local_storage \<Rightarrow> user_data
     \<Rightarrow> (js_exn + registration) \<times> backend \<times> local_storage" where
  "register_body e cl db storage userData =
     (case adminSupabase cl of
        None \<Rightarrow> (Inl (JsError
          ''Admin access is required to register users. Service key not configured.''), db, storage)
      | Some admin \<Rightarrow>
          (let looked_up =
                 (case select_users admin db (\<lambda>u. email_user u = email userData) of
                    Inl checkError \<Rightarrow> Inl checkError
                  | Inr rows \<Rightarrow> single rows)
           in case looked_up of
                Inl checkError \<Rightarrow>
                  if code checkError \<noteq> ''PGRST116'' then (Inl (Pg checkError), db, storage)
                  else
                    (case insert_user admin db
                            \<lparr>id_user = new_user_id e, email_user = email userData,
                             name_user = name userData, group_id_user = groupId userData\<rparr> of
                       Inl error \<Rightarrow> (Inl (Pg error), db, storage)
                     | Inr (data, db') \<Rightarrow>
                         (let userId = id_user (hd data);
                              storage' = storage(USER_DATA_KEY \<mapsto> Stored_user userData)
                          in case generateUserToken e storage' userData userId of
                               (Inl err, storage'') \<Rightarrow> (Inl err, db', storage'')
                             | (Inr token, storage'') \<Rightarrow>
                                 (Inr (Registered userData token userId True), db', storage'')))
              | Inr existingUser \<Rightarrow>
                  (case update_users admin db (\<lambda>u. id_user u = id_user existingUser)
                          (\<lambda>u. u\<lparr>name_user := name userData, group_id_user := groupId userData\<rparr>) of
                     Inl error \<Rightarrow> (Inl (Pg error), db, storage)
                   | Inr (data, db') \<Rightarrow>
                       (let userId = id_user existingUser;
                            storage' = storage(USER_DATA_KEY \<mapsto> Stored_user userData)
                        in case generateUserToken e storage' userData userId of
                             (Inl err, storage'') \<Rightarrow> (Inl err, db', storage'')
                           | (Inr token, storage'') \<Rightarrow>
                               (Inr (Registered userData token userId False), db', storage'')))))"

definition registerUser ::
  "env \<Rightarrow> clients \<Rightarrow> backend \<Rightarrow> local_storage \<Rightarrow> user_data
     \<Rightarrow> registration \<times> backend \<times> local_storage" where
  "registerUser e cl db storage userData =
     (case register_body e cl db storage userData of
        (Inl error, db', storage') \<Rightarrow> (Registration_failed (exn_message error), db', storage')
      | (Inr result, db', storage') \<Rightarrow> (result, db', storage'))"

section \<open>Reservation creation (lib/supabase.js)\<close>

text \<open>
  The reservation is inserted first and the slot is marked unavailable afterwards, in two
  calls; the row's identifier is the one the backend gives it.
\<close>

definition createReservation ::
  "env \<Rightarrow> clients \<Rightarrow> backend \<Rightarrow> string \<Rightarrow> form_data \<Rightarrow> (js_exn + reservation) \<times> backend" where
  "createReservation e cl db slotId userData =
     (case adminSupabase cl of
        None \<Rightarrow> (Inl (JsError
          ''Admin access is required to complete reservations. Service key not configured.''), db)
      | Some admin \<Rightarrow>
          (let bookingReference = generateBookingReference (env_today e) (env_random e);
               reservationData =
                 \<lparr>id_reservation = new_reservation_id e, slot_id = Some slotId,
                  user_name = name userData, user_email = email userData,
                  group_id = groupId userData, notes_reservation = notes_form userData,
                  reference = bookingReference, status = ''confirmed'', status_reason = []\<rparr>
           in case insert_reservation admin db reservationData of
                Inl error \<Rightarrow> (Inl (Pg error), db)
              | Inr (data, db') \<Rightarrow>
                  (case update_slots admin db' (\<lambda>s. id_slot s = slotId)
                          (\<lambda>s. s\<lparr>is_available := False\<rparr>) of
                     Inl updateError \<Rightarrow> (Inl (Pg updateError), db')
                   | Inr (updated, db'') \<Rightarrow>
                       (let created = hd data;
                            created = (if reference created = []
                                       then created\<lparr>reference := bookingReference\<rparr>
                                       else created)
                        in (Inr created, db'')))))"

section \<open>Confirmation email (lib/emailService.js)\<close>

text \<open>
  The booking data handed to the email function. Any part of it may be missing: reading a
  property of a missing part raises a \<open>TypeError\<close>. The slot is seen through the three
  properties the function reads.
\<close>

record mail_slot =
  slot_date :: "string option"
  slot_start_time :: "string option"
  slot_duration :: "string option"

record booking_data =
  booking_user :: "form_data option"
  booking_slot :: "mail_slot option"
  booking_ref :: "string option"

datatype email_result = Email_sent string | Email_failed string

text \<open>Whether a text contains another (\<open>String.prototype.includes\<close>).\<close>

fun starts_with :: "string \<Rightarrow> string \<Rightarrow> bool" where
  "starts_with s [] = True"
| "starts_with [] (p # ps) = False"
| "starts_with (c # cs) (p # ps) = (c = p \<and> starts_with cs ps)"

fun includes_text :: "string \<Rightarrow> string \<Rightarrow> bool" where
  "includes_text [] sub = (sub = [])"
| "includes_text (c # cs) sub = (starts_with (c # cs) sub \<or> includes_text cs sub)"

text \<open>
  The inner \<open>try\<close> block: the date and the time of the booking as the email shows them,
  with the two default texts when the slot or its start is missing or the date is invalid.
\<close>

definition format_booking_date :: "env \<Rightarrow> mail_slot option \<Rightarrow> string \<times> string" where
  "format_booking_date e sl =
     (case sl of
        None \<Rightarrow> (''Date not available'', ''Time not available'')
      | Some s \<Rightarrow>
          (let bookingDate =
                 (if truthy (slot_date s) \<and> truthy (slot_start_time s) then
                    env_parse_date e (the (slot_date s) @ '' '' @ the (slot_start_time s))
                  else if truthy (slot_start_time s) \<and> includes_text (the (slot_start_time s)) ''T'' then
                    env_parse_date e (the (slot_start_time s))
                  else if truthy (slot_start_time s) then
                    env_parse_date e
                      (takeWhile (\<lambda>c. c \<noteq> CHR ''T'') (env_iso e (env_now e)) @ ''T''
                         @ the (slot_start_time s))
                  else None)
           in case bookingDate of
                None \<Rightarrow> (''Date not available'', ''Time not available'')
              | Some d \<Rightarrow> (env_format_date e d, env_format_time e d)))"

definition or_else :: "string \<Rightarrow> string \<Rightarrow> string" where
  "or_else s fallback = (if s = [] then fallback else s)"

text \<open>The body of the outer \<open>try\<close> block.\<close>

definition confirmation_body :: "env \<Rightarrow> booking_data option \<Rightarrow> js_exn + email_result" where
  "confirmation_body e bookingData =
     (if EMAIL_SERVICE_ID (email_settings e) = [] \<or> EMAIL_TEMPLATE_ID (email_settings e) = []
         \<or> EMAIL_PUBLIC_KEY (email_settings e) = []
      then Inr (Email_failed ''Email service not configured'')
      else
        (case bookingData of
           None \<Rightarrow> Inl (JsError ''Cannot read properties of undefined (reading 'reference')'')
         | Some bd \<Rightarrow>
             (let bookingReference =
                    (if truthy (booking_ref bd) then the (booking_ref bd)
                     else generateBookingReference (env_today e) (env_random e));
                  (formattedDate, formattedTime) = format_booking_date e (booking_slot bd)
              in case booking_user bd of
                   None \<Rightarrow> Inl (JsError ''Cannot read properties of undefined (reading 'name')'')
                 | Some ud \<Rightarrow>
                     (case booking_slot bd of
                        None \<Rightarrow>
                          Inl (JsError ''Cannot read properties of undefined (reading 'duration')'')
                      | Some sl \<Rightarrow>
                          (let templateParams =
                                 \<lparr>to_name = or_else (name ud) ''Valued Customer'',
                                  to_email = email ud,
                                  booking_reference = bookingReference,
                                  booking_date = formattedDate,
                                  booking_time = formattedTime,
                                  booking_duration =
                                    (if truthy (slot_duration sl)
                                     then the (slot_duration sl) @ '' minutes''
                                     else ''Duration not specified''),
                                  booking_notes = or_else (notes_form ud) ''No additional notes'',
                                  group_id_param = or_else (groupId ud) ''Not specified''\<rparr>
                           in case emailjs_send e (EMAIL_SERVICE_ID (email_settings e))
                                     (EMAIL_TEMPLATE_ID (email_settings e)) templateParams of
                                Inl rejection \<Rightarrow> Inl rejection
                              | Inr response_status \<Rightarrow>
                                  if response_status = 200 then Inr (Email_sent bookingReference)
                                  else Inl (JsError (''Email service returned status: ''
                                                      @ toString 10 response_status)))))))"

text \<open>
  \<open>sendBookingConfirmationEmail\<close>: the body, with every exception caught and turned
  into a failure result. The sum type keeps the place of an exception that would escape.
\<close>

definition sendBookingConfirmationEmail :: "env \<Rightarrow> booking_data option \<Rightarrow> js_exn + email_result" where
  "sendBookingConfirmationEmail e bookingData =
     (case confirmation_body e bookingData of
        Inl error \<Rightarrow>
          Inr (Email_failed
                 (case exn_message error of
                    None \<Rightarrow> ''Unknown error sending email''
                  | Some m \<Rightarrow> or_else m ''Unknown error sending email''))
      | Inr result \<Rightarrow> Inr result)"

section \<open>The booking page (pages/BookingPage.jsx)\<close>

text \<open>\<open>formatTimeUntilReset\<close> (lib/rateLimiter.js).\<close>

definition formatTimeUntilReset :: "int \<Rightarrow> string" where
  "formatTimeUntilReset milliseconds =
     (let seconds = milliseconds div 1000;
          minutes = seconds div 60;
          hours = minutes div 60
      in if hours > 0 then toString 10 hours @ '' hour'' @ (if hours > 1 then ''s'' else [])
         else if minutes > 0 then toString 10 minutes @ '' minute'' @ (if minutes > 1 then ''s'' else [])
         else toString 10 seconds @ '' second'' @ (if seconds \<noteq> 1 then ''s'' else []))"

text \<open>
  The state of the page component, and the confirmed booking it keeps. \<open>quick\<close> is the
  value of the parameter 'quick' in the address of the page (\<open>searchParams\<close>), if any.
\<close>

record booking =
  confirmed_slot :: slot
  confirmed_user :: form_data
  confirmed_reference :: string

record page_state =
  selectedSlot :: "slot option"
  formData :: form_data
  formErrors :: "(string \<times> string) list"
  submitting :: bool
  submitError :: "string option"
  submitSuccess :: bool
  confirmedBooking :: "booking option"
  isHumanVerified :: bool
  rateLimitInfo :: "rate_limit_status option"
  userReservationCount :: "reservation_count option"
  isQuickLoading :: bool
  quick :: "string option"

text \<open>
  What lies outside the component and is changed by its handlers: the backend, the attempt
  store of the rate limiter, \<open>localStorage\<close> and the console; \<open>calls\<close> records, in
  order, the calls the handler makes to the functions that reach the backend.
\<close>

datatype call =
    Called_getUserReservationCount string
  | Called_verifySlotAvailability string
  | Called_registerUser user_data
  | Called_createReservation string
  | Called_sendBookingConfirmationEmail

record world =
  database :: backend
  attemptStore :: attempt_store
  localStorage :: local_storage
  console :: "string list"
  calls :: "call list"

text \<open>
  \<open>handleSlotSelect\<close>. A missing slot is \<open>None\<close> and a missing identifier is the empty
  text. The promise of the availability check is followed to its end.
\<close>

definition handleSlotSelect ::
  "env \<Rightarrow> clients \<Rightarrow> backend \<Rightarrow> page_state \<Rightarrow> slot option \<Rightarrow> page_state" where
  "handleSlotSelect e cl db st chosen =
     (case chosen of
        None \<Rightarrow> st
      | Some s \<Rightarrow>
          if id_slot s = [] then st
          else if isSlotDisabled e (start_time s) then
            st\<lparr>submitError := Some
              ''Cannot select a slot in the past or within the next hour. Please select a future time slot.''\<rparr>
          else
            (let st = (if quick st \<noteq> None then st\<lparr>quick := None\<rparr> else st)
             in case verifySlotAvailability cl db (id_slot s) of
                  Inr isAvailable \<Rightarrow>
                    if isAvailable then st\<lparr>selectedSlot := Some s, submitError := None\<rparr>
                    else st\<lparr>submitError := Some
                      ''This slot is no longer available. Please select another time slot.''\<rparr>
                | Inl err \<Rightarrow>
                    st\<lparr>submitError := Some
                      ''Error verifying slot availability. Please try again.''\<rparr>))"

text \<open>
  \<open>handleQuickBook\<close> (components/QuickBook.jsx). It ends with one of three messages of
  the component ('Failed to find an available slot...', 'No available slots found in the
  database...', 'All slots are currently booked...'), or it stores the closest available
  slot under 'quickBookSlot' in \<open>sessionStorage\<close> and opens the booking page with
  'quick=true'. \<open>futureDate\<close> is \<open>now\<close> one month later.
\<close>

datatype quick_book = Quick_failed | No_slots_found | All_booked | Quick_stored slot

definition handleQuickBook :: "clients \<Rightarrow> backend \<Rightarrow> int \<Rightarrow> int \<Rightarrow> quick_book" where
  "handleQuickBook cl db now futureDate =
     (case checkSlotsExist cl db now of
        Inl err \<Rightarrow> Quick_failed
      | Inr slotsExist \<Rightarrow>
          if \<not> slotsExist then No_slots_found
          else
            (case getClosestAvailableSlot cl db now futureDate of
               Inl err \<Rightarrow> Quick_failed
             | Inr None \<Rightarrow> All_booked
             | Inr (Some s) \<Rightarrow> Quick_stored s))"

text \<open>
  The item 'quickBookSlot' of \<open>sessionStorage\<close>: absent, a text that \<open>JSON.parse\<close>
  rejects, or the text of a slot as \<open>handleQuickBook\<close> stores it.
\<close>

datatype session_item = No_item | Not_json | Json_slot slot

text \<open>
  The effect of the booking page that runs when the page is opened and when the address
  changes. The promise of the availability check is followed to its end. The result is
  the state of the page and the item left in \<open>sessionStorage\<close>.
\<close>

definition quickBookEffect ::
  "clients \<Rightarrow> backend \<Rightarrow> session_item \<Rightarrow> page_state \<Rightarrow> page_state \<times> session_item" where
  "quickBookEffect cl db storedSlot st =
     (let isQuickBook = (quick st = Some ''true'')
      in if isQuickBook then
           (let st = st\<lparr>isQuickLoading := True\<rparr>
            in case storedSlot of
                 No_item \<Rightarrow> (st\<lparr>isQuickLoading := False\<rparr>, No_item)
               | Not_json \<Rightarrow> (st\<lparr>isQuickLoading := False\<rparr>, Not_json)
               | Json_slot s \<Rightarrow>
                   (case verifySlotAvailability cl db (id_slot s) of
                      Inr isAvailable \<Rightarrow>
                        if isAvailable then
                          (st\<lparr>selectedSlot := Some s, isQuickLoading := False\<rparr>, No_item)
                        else
                          (st\<lparr>submitError := Some
                                ''The slot is no longer available. Please select another time slot.'',
                              isQuickLoading := False\<rparr>, No_item)
                    | Inl err \<Rightarrow>
                        (st\<lparr>submitError := Some
                              ''Error verifying slot availability. Please try again.'',
                            isQuickLoading := False\<rparr>, No_item)))
         else (st, storedSlot))"

text \<open>
  What the page shows of \<open>submitError\<close>. The confirmation view, shown when
  \<open>submitSuccess\<close> is set, has no place for it; on the booking view the message is part
  of the card 'Complete Your Booking', which is rendered only while a slot is selected
  (\<open>{selectedSlot && (...)}\<close>), and there only when the message is not empty.
\<close>

definition shown_error :: "page_state \<Rightarrow> string option" where
  "shown_error st =
     (if submitSuccess st then None
      else if selectedSlot st \<noteq> None then
        (if truthy (submitError st) then submitError st else None)
      else None)"

text \<open>The \<open>catch\<close> block of \<open>handleSubmit\<close>: the message shown for an exception.\<close>

definition booking_error_message :: "js_exn \<Rightarrow> string" where
  "booking_error_message err =
     (if (case exn_message err of
            None \<Rightarrow> False
          | Some m \<Rightarrow> m \<noteq> [] \<and> includes_text m ''Service key not configured'')
      then ''Admin permissions required. Please add a service key in your .env.local file to complete bookings.''
      else if exn_code err = Some ''42501''
      then ''Permission denied. The application lacks necessary database permissions for completing bookings.''
      else (case exn_message err of
              None \<Rightarrow> ''There was an error creating your booking. Please try again.''
            | Some m \<Rightarrow> or_else m ''There was an error creating your booking. Please try again.''))"

text \<open>
  The email is sent without being awaited, in a race with a three-second timer; its result
  only reaches the console.
\<close>

definition confirmation_email_log :: "env \<Rightarrow> booking_data \<Rightarrow> string" where
  "confirmation_email_log e bookingData =
     (case sendBookingConfirmationEmail e (Some bookingData) of
        Inl err \<Rightarrow> ''Error sending confirmation email:''
      | Inr emailResult \<Rightarrow>
          if email_delayed e then
            ''Email confirmation is taking longer than expected, continuing in background''
          else
            (case emailResult of
               Email_failed reason \<Rightarrow> ''Confirmation email could not be sent: '' @ reason
             | Email_sent ref \<Rightarrow> ''Confirmation email sent successfully''))"

text \<open>
  The three parts of the \<open>try\<close> block of \<open>handleSubmit\<close>, last part first. Each returns
  the exception thrown, if any, with the world and the state as they are then.
\<close>

definition confirm_booking ::
  "env \<Rightarrow> clients \<Rightarrow> world \<Rightarrow> page_state \<Rightarrow> slot \<Rightarrow> js_exn option \<times> world \<times> page_state" where
  "confirm_booking e cl w st sel =
     (let fd = formData st;
          userData = \<lparr>name = name fd, email = email fd, groupId = groupId fd\<rparr>;
          w = (if email fd \<noteq> []
               then w\<lparr>attemptStore := recordAttempt (email fd) (env_now e) (attemptStore w)\<rparr>
               else w);
          (registrationResult, db, storage) =
             registerUser e cl (database w) (localStorage w) userData;
          w = w\<lparr>database := db, localStorage := storage,
                 calls := calls w @ [Called_registerUser userData]\<rparr>
      in case registrationResult of
           Registration_failed reason \<Rightarrow>
             (Some (JsError (if truthy reason then the reason else ''Failed to register user'')),
              w, st)
         | Registered u token uid is_new \<Rightarrow>
             (case createReservation e cl (database w) (id_slot sel) fd of
                (Inl err, db) \<Rightarrow>
                  (Some err,
                   w\<lparr>database := db, calls := calls w @ [Called_createReservation (id_slot sel)]\<rparr>,
                   st)
              | (Inr reservationData, db) \<Rightarrow>
                  (let bookingData =
                         \<lparr>booking_user = Some fd,
                          booking_slot = Some \<lparr>slot_date = None,
                            slot_start_time = Some (env_iso e (start_time sel)),
                            slot_duration = None\<rparr>,
                          booking_ref = Some (reference reservationData)\<rparr>;
                       w = w\<lparr>database := db,
                              console := console w @ [confirmation_email_log e bookingData],
                              calls := calls w @ [Called_createReservation (id_slot sel),
                                                  Called_sendBookingConfirmationEmail]\<rparr>
                   in (None, w,
                       st\<lparr>confirmedBooking := Some \<lparr>confirmed_slot = sel, confirmed_user = fd,
                              confirmed_reference = reference reservationData\<rparr>,
                          submitSuccess := True\<rparr>))))"

definition check_slot_and_book ::
  "env \<Rightarrow> clients \<Rightarrow> world \<Rightarrow> page_state \<Rightarrow> js_exn option \<times> world \<times> page_state" where
  "check_slot_and_book e cl w st =
     (case selectedSlot st of
        None \<Rightarrow> (Some (JsError ''Cannot read properties of null (reading 'id')''), w, st)
      | Some sel \<Rightarrow>
          (let w = w\<lparr>calls := calls w @ [Called_verifySlotAvailability (id_slot sel)]\<rparr>
           in case verifySlotAvailability cl (database w) (id_slot sel) of
                Inl err \<Rightarrow> (Some err, w, st)
              | Inr isAvailable \<Rightarrow>
                  if \<not> isAvailable then
                    (None, w,
                     st\<lparr>submitError := Some
                          ''This slot has just been booked by someone else. Please select another time slot.'',
                        selectedSlot := None, submitting := False\<rparr>)
                  else confirm_booking e cl w st sel))"

definition submit_body ::
  "env \<Rightarrow> clients \<Rightarrow> world \<Rightarrow> page_state \<Rightarrow> js_exn option \<times> world \<times> page_state" where
  "submit_body e cl w st =
     (case validateBookingForm (formData st) of
        Invalid msg field \<Rightarrow>
          (None, w, st\<lparr>submitError := Some msg, formErrors := [(field, msg)], submitting := False\<rparr>)
      | Valid \<Rightarrow>
          if \<not> isHumanVerified st then
            (None, w,
             st\<lparr>submitError := Some
                  ''Please complete the human verification challenge before booking.'',
                submitting := False\<rparr>)
          else if email (formData st) \<noteq> [] then
            (let (rateLimit, store) =
                   checkRateLimit (email (formData st)) (env_now e) (attemptStore w);
                 w = w\<lparr>attemptStore := store\<rparr>;
                 st = st\<lparr>rateLimitInfo := Some rateLimit\<rparr>
             in if limited rateLimit then
                  (None, w,
                   st\<lparr>submitError := Some
                        (''You've reached the maximum number of booking attempts. Please try again in ''
                         @ (case timeUntilReset rateLimit of
                              None \<Rightarrow> ''NaN seconds''
                            | Some t \<Rightarrow> formatTimeUntilReset t)
                         @ ''.''),
                      submitting := False\<rparr>)
                else
                  (let w = w\<lparr>calls := calls w
                                @ [Called_getUserReservationCount (email (formData st))]\<rparr>
                   in case getUserReservationCount e (email (formData st)) of
                        Inl err \<Rightarrow> (Some err, w, st)
                      | Inr reservationCount \<Rightarrow>
                          (let st = st\<lparr>userReservationCount := Some reservationCount\<rparr>
                           in if success reservationCount \<and> count reservationCount \<ge> 1 then
                                (None, w,
                                 st\<lparr>submitError := Some
                                      ''You already have an active reservation. Please cancel your existing reservation before making a new one. You can manage your reservations in your profile page.'',
                                    submitting := False\<rparr>)
                              else check_slot_and_book e cl w st)))
          else check_slot_and_book e cl w st)"

text \<open>
  \<open>handleSubmit\<close>: the three state updates before the \<open>try\<close> block, its body, the
  \<open>catch\<close> block and the \<open>finally\<close> block.
\<close>

definition handleSubmit :: "env \<Rightarrow> clients \<Rightarrow> world \<times> page_state \<Rightarrow> world \<times> page_state" where
  "handleSubmit e cl ws =
     (let (w, st) = ws;
          st = st\<lparr>submitting := True, submitError := None, formErrors := []\<rparr>;
          (thrown, w, st) = submit_body e cl w st;
          st = (case thrown of
                  None \<Rightarrow> st
                | Some err \<Rightarrow> st\<lparr>submitError := Some (booking_error_message err)\<rparr>)
      in (w, st\<lparr>submitting := False\<rparr>))"

text \<open>The calls that one run of \<open>handleSubmit\<close> adds to the record of calls.\<close>

definition calls_made :: "env \<Rightarrow> clients \<Rightarrow> world \<times> page_state \<Rightarrow> call list" where
  "calls_made e cl ws = drop (length (calls (fst ws))) (calls (fst (handleSubmit e cl ws)))"

section \<open>Example data\<close>

text \<open>
  The data of the closed examples below: a free slot, a booked slot with its confirmed
  reservation, the stored hash of the administrator's password 'pw', two configurations
  of the clients, an environment, and a page on which a visitor has chosen the free slot
  and filled in the form.
\<close>

definition slot_free :: slot where
  "slot_free = \<lparr>id_slot = ''s1'', start_time = 1000, end_time = 2000, is_available = True\<rparr>"

definition slot_booked :: slot where
  "slot_booked = \<lparr>id_slot = ''s2'', start_time = 3000, end_time = 4000, is_available = False\<rparr>"

definition booking_r1 :: reservation where
  "booking_r1 = \<lparr>id_reservation = ''r1'', slot_id = Some ''s2'', user_name = ''Ann'',
     user_email = ''ann@example.org'', group_id = ''g1'', notes_reservation = [],
     reference = ''ADR-20261103-AB12'', status = ''confirmed'', status_reason = []\<rparr>"

definition example_backend :: backend where
  "example_backend = \<lparr>slots = [slot_free, slot_booked], reservations = [booking_r1],
     users = [], settings = [(''admin_password_hash'', ''e07'')]\<rparr>"

definition with_service_key :: clients where
  "with_service_key = \<lparr>supabase = unrestricted, adminSupabase = Some unrestricted\<rparr>"

definition anon_denied :: clients where
  "anon_denied = \<lparr>supabase = denied, adminSupabase = Some unrestricted\<rparr>"

definition public_site :: clients where
  "public_site = \<lparr>supabase = public_key, adminSupabase = Some unrestricted\<rparr>"

definition no_reservation :: "string \<Rightarrow> js_exn + reservation_count" where
  "no_reservation address = Inr \<lparr>success = True, count = 0\<rparr>"

definition one_reservation :: "string \<Rightarrow> js_exn + reservation_count" where
  "one_reservation address = Inr \<lparr>success = True, count = 1\<rparr>"

definition send_accepted :: "string \<Rightarrow> string \<Rightarrow> template_params \<Rightarrow> js_exn + int" where
  "send_accepted service template params = Inr 200"

definition send_rejected :: "string \<Rightarrow> string \<Rightarrow> template_params \<Rightarrow> js_exn + int" where
  "send_rejected service template params = Inl (EmailStatus 412 ''The service is down'')"

definition half :: "nat \<Rightarrow> real" where
  "half i = 1 / 2"

definition example_iso :: "int \<Rightarrow> string" where
  "example_iso t = ''1970-01-01T00:00:01.000Z''"

definition example_parse :: "string \<Rightarrow> int option" where
  "example_parse s = Some 1000"

definition example_format :: "int \<Rightarrow> string" where
  "example_format t = ''Thursday, January 1, 1970''"

definition example_env :: env where
  "example_env = \<lparr>env_now = 500, LocalTZA = (\<lambda>t isUTC. 0),
     env_today = \<lparr>getFullYear = 2026, getMonth = 10, getDate = 3\<rparr>, env_random = half,
     env_iso = example_iso, env_parse_date = example_parse, env_format_date = example_format,
     env_format_time = example_format, JWT_SECRET = ''admin-secret-key'', crypto_failure = None,
     new_user_id = ''u1'', new_reservation_id = ''r2'', getUserReservationCount = no_reservation,
     email_settings = \<lparr>EMAIL_SERVICE_ID = ''service_default'',
       EMAIL_TEMPLATE_ID = ''template_default'', EMAIL_PUBLIC_KEY = ''key''\<rparr>,
     emailjs_send = send_accepted, email_delayed = False\<rparr>"

definition example_form :: form_data where
  "example_form = \<lparr>name = ''Bob'', email = ''bob@example.org'', groupId = ''g2'',
     notes_form = []\<rparr>"

definition example_page :: page_state where
  "example_page = \<lparr>selectedSlot = Some slot_free, formData = example_form, formErrors = [],
     submitting = False, submitError = None, submitSuccess = False, confirmedBooking = None,
     isHumanVerified = True, rateLimitInfo = None, userReservationCount = None,
     isQuickLoading = False, quick = None\<rparr>"

definition example_world :: world where
  "example_world = \<lparr>database = example_backend, attemptStore = Map.empty,
     localStorage = Map.empty, console = [], calls = []\<rparr>"

text \<open>
  The slot s2 as a visitor selected it while it was free; the page opened by the quick
  booking, with nothing selected yet; and a browser in New York on 1 November 2026, at
  05:30 UTC, half an hour before daylight-saving time ends there (the offset is four
  hours behind UTC before 06:00 UTC and five hours behind from then on; of a local time
  that occurs twice, the first occurrence is meant).
\<close>

definition slot_as_selected :: slot where
  "slot_as_selected = slot_booked\<lparr>is_available := True\<rparr>"

definition quick_page :: page_state where
  "quick_page = example_page\<lparr>selectedSlot := None, quick := Some ''true''\<rparr>"

definition new_york :: "int \<Rightarrow> bool \<Rightarrow> int" where
  "new_york t isUTC =
     (if isUTC then (if t < 1793512800000 then - 14400000 else - 18000000)
      else (if t < 1793498400000 then - 14400000 else - 18000000))"

definition new_york_env :: env where
  "new_york_env = example_env\<lparr>env_now := 1793511000000, LocalTZA := new_york\<rparr>"
section \<open>Properties of the human verification challenge\<close>

text \<open>
  C7 (as amended). For every challenge and every non-empty user answer, when more than
  five minutes have passed between the challenge's timestamp and the verification, both
  \<open>verifyMathChallenge\<close> and \<open>verifyImageChallenge\<close> fail with the error
  'Verification expired. Please try again.', whether or not the answer is correct.
\<close>

theorem verification_expired:
  assumes "now - timestamp c > 5 * 60 * 1000" and "userAnswer \<noteq> []"
  shows "verifyMathChallenge now (Some c) userAnswer
           = Object (Failure ''Verification expired. Please try again.'')
       \<and> verifyImageChallenge now (Some c) userAnswer
           = Failure ''Verification expired. Please try again.''"
  using assms by (simp add: verifyMathChallenge_def verifyImageChallenge_def fiveMinutes_def)

theorem verification_expired_witness:
  "verifyMathChallenge 300001 (Some \<lparr>question = ''What is 3 + 4?'', answer = ''7'', timestamp = 0\<rparr>) ''7''
     = Object (Failure ''Verification expired. Please try again.'')
   \<and> verifyImageChallenge 300001 (Some \<lparr>question = ''What is 3 + 4?'', answer = ''7'', timestamp = 0\<rparr>) ''7''
     = Failure ''Verification expired. Please try again.''"
  using verification_expired
    [of 300001 "\<lparr>question = ''What is 3 + 4?'', answer = ''7'', timestamp = 0\<rparr>" "''7''"]
  by simp

text \<open>
  The claim as first stated fails for the empty answer: the guard on a missing challenge
  or answer comes before the expiry check, so an expired challenge answered with the empty
  string gives the bare \<open>false\<close> (math) and 'Invalid challenge or answer' (image).
\<close>

theorem verification_expired_counterexample:
  "(300001 :: int) - timestamp \<lparr>question = ''What is 3 + 4?'', answer = ''7'', timestamp = 0\<rparr> > 5 * 60 * 1000
   \<and> verifyMathChallenge 300001 (Some \<lparr>question = ''What is 3 + 4?'', answer = ''7'', timestamp = 0\<rparr>) []
       = Bare_false
   \<and> verifyImageChallenge 300001 (Some \<lparr>question = ''What is 3 + 4?'', answer = ''7'', timestamp = 0\<rparr>) []
       = Failure ''Invalid challenge or answer''"
  by (simp add: verifyMathChallenge_def verifyImageChallenge_def)

section \<open>Properties of the rate limiter\<close>

lemma recordAttempt_other:
  "other \<noteq> ident \<Longrightarrow> recordAttempt ident t store other = store other"
  by (simp add: recordAttempt_def Let_def)

lemma fold_recordAttempt_other:
  "other \<noteq> ident \<Longrightarrow> fold (recordAttempt ident) ts store other = store other"
  by (induction ts arbitrary: store) (simp_all add: recordAttempt_other)

lemma fold_recordAttempt_entry:
  "ident \<noteq> [] \<Longrightarrow> store ident = Some e \<Longrightarrow>
   fold (recordAttempt ident) ts store ident = Some (e\<lparr>attempts := attempts e @ ts\<rparr>)"
  by (induction ts arbitrary: store e) (simp_all add: recordAttempt_def)

lemma fold_recordAttempt_fresh:
  "ident \<noteq> [] \<Longrightarrow> store ident = None \<Longrightarrow>
   fold (recordAttempt ident) (t # ts) store ident
     = Some \<lparr>attempts = t # ts, lastReset = t\<rparr>"
  using fold_recordAttempt_entry [where ident = ident
      and store = "recordAttempt ident t store"
      and e = "\<lparr>attempts = [t], lastReset = t\<rparr>" and ts = ts]
  by (simp add: recordAttempt_def)

lemma checkRateLimit_limited_iff:
  "ident \<noteq> [] \<Longrightarrow> store ident = Some e \<Longrightarrow>
   limited (fst (checkRateLimit ident now store)) =
     (now - lastReset e < RATE_LIMIT_WINDOW \<and>
      5 \<le> length (filter (\<lambda>t. now - t < RATE_LIMIT_WINDOW) (attempts e)))"
  by (auto simp add: checkRateLimit_def Let_def MAX_ATTEMPTS_def)

lemma checkRateLimit_few:
  "(case store ident of None \<Rightarrow> True
    | Some e \<Rightarrow> length (filter (\<lambda>t. now - t < 60 * 60 * 1000) (attempts e)) < 5) \<Longrightarrow>
   \<not> limited (fst (checkRateLimit ident now store))"
  by (cases "ident = []")
     (auto simp add: checkRateLimit_def Let_def MAX_ATTEMPTS_def RATE_LIMIT_WINDOW_def
           split: option.splits)

text \<open>
  C4 (as amended). Take a non-empty identifier for which at least five attempts have been
  recorded, all of them less than one hour before the check, and let \<open>e\<close> be its entry
  in the store. Then \<open>checkRateLimit\<close> returns \<open>limited = true\<close> exactly when less than
  one hour has passed since the entry's \<open>lastReset\<close> (the time the entry was created or
  last reset); a check made an hour or more after \<open>lastReset\<close> clears the attempts and
  returns \<open>limited = false\<close>. Recording attempts for one identifier leaves the entry of
  every other identifier as it was, and an identifier with fewer than five attempts in the
  last hour is never limited.
\<close>

theorem rate_limit_window:
  assumes nonempty: "ident \<noteq> []"
    and five: "5 \<le> length ts"
    and recent: "\<forall>t \<in> set ts. now - t < 60 * 60 * 1000"
    and recorded: "fold (recordAttempt ident) ts store ident = Some e"
  shows "limited (fst (checkRateLimit ident now (fold (recordAttempt ident) ts store)))
           = (now - lastReset e < 60 * 60 * 1000)
       \<and> (\<forall>other. other \<noteq> ident \<longrightarrow>
             fold (recordAttempt ident) ts store other = store other)
       \<and> (\<forall>other store'.
             (case store' other of None \<Rightarrow> True
              | Some e' \<Rightarrow> length (filter (\<lambda>t. now - t < 60 * 60 * 1000) (attempts e')) < 5)
             \<longrightarrow> \<not> limited (fst (checkRateLimit other now store')))"
proof -
  let ?W = "\<lambda>t. now - t < RATE_LIMIT_WINDOW"
  have ts_valid: "filter ?W ts = ts"
    using recent by (simp add: RATE_LIMIT_WINDOW_def)
  obtain old where old: "attempts e = old @ ts"
  proof (cases "store ident")
    case None
    from five obtain t ts' where "ts = t # ts'" by (cases ts) auto
    with fold_recordAttempt_fresh [where ident = ident and store = store
        and t = t and ts = ts'] nonempty None recorded
    have "attempts e = [] @ ts" by auto
    then show ?thesis by (rule that)
  next
    case (Some e0)
    from fold_recordAttempt_entry [where ident = ident and store = store
        and e = e0 and ts = ts] nonempty Some recorded
    have "attempts e = attempts e0 @ ts" by auto
    then show ?thesis by (rule that)
  qed
  have "length ts \<le> length (filter ?W (attempts e))"
    by (simp add: old ts_valid)
  with five have "5 \<le> length (filter ?W (attempts e))" by linarith
  then have first: "limited (fst (checkRateLimit ident now (fold (recordAttempt ident) ts store)))
           = (now - lastReset e < 60 * 60 * 1000)"
    using checkRateLimit_limited_iff [where ident = ident
        and store = "fold (recordAttempt ident) ts store" and e = e and now = now]
      nonempty recorded
    by (simp add: RATE_LIMIT_WINDOW_def)
  have second: "\<forall>other. other \<noteq> ident \<longrightarrow>
             fold (recordAttempt ident) ts store other = store other"
    by (simp add: fold_recordAttempt_other)
  have third: "\<forall>other store'.
             (case store' other of None \<Rightarrow> True
              | Some e' \<Rightarrow> length (filter (\<lambda>t. now - t < 60 * 60 * 1000) (attempts e')) < 5)
             \<longrightarrow> \<not> limited (fst (checkRateLimit other now store'))"
    using checkRateLimit_few by blast
  from first second third show ?thesis by blast
qed

text \<open>
  Five attempts for one identifier in the same second: the sixth check is limited, and a
  different identifier, with nothing recorded, is not.
\<close>

theorem rate_limit_window_witness:
  "limited (fst (checkRateLimit ''a@b.c'' 6000
       (fold (recordAttempt ''a@b.c'') [1000, 2000, 3000, 4000, 5000] Map.empty)))
   \<and> fold (recordAttempt ''a@b.c'') [1000, 2000, 3000, 4000, 5000] Map.empty ''d@e.f'' = None
   \<and> \<not> limited (fst (checkRateLimit ''d@e.f'' 6000
       (fold (recordAttempt ''a@b.c'') [1000, 2000, 3000, 4000, 5000] Map.empty)))"
proof -
  have rec: "fold (recordAttempt ''a@b.c'') [1000, 2000, 3000, 4000, 5000] Map.empty ''a@b.c''
      = Some \<lparr>attempts = [1000, 2000, 3000, 4000, 5000], lastReset = 1000\<rparr>"
    by (simp add: recordAttempt_def)
  have oth: "fold (recordAttempt ''a@b.c'') [1000, 2000, 3000, 4000, 5000] Map.empty ''d@e.f'' = None"
    by (simp add: recordAttempt_def)
  from rate_limit_window [where ident = "''a@b.c''" and ts = "[1000, 2000, 3000, 4000, 5000]"
      and now = 6000 and store = Map.empty
      and e = "\<lparr>attempts = [1000, 2000, 3000, 4000, 5000], lastReset = 1000\<rparr>", OF _ _ _ rec]
  have "limited (fst (checkRateLimit ''a@b.c'' 6000
            (fold (recordAttempt ''a@b.c'') [1000, 2000, 3000, 4000, 5000] Map.empty)))
      \<and> (\<forall>other store'.
             (case store' other of None \<Rightarrow> True
              | Some e' \<Rightarrow> length (filter (\<lambda>t. 6000 - t < 60 * 60 * 1000) (attempts e')) < 5)
             \<longrightarrow> \<not> limited (fst (checkRateLimit other 6000 store')))"
    by simp
  with oth show ?thesis by simp
qed

text \<open>
  The claim as first stated fails: the entry is created by a check at time 0, five
  attempts are recorded between minute 50 and minute 54, all within the hour before a
  check at minute 60; that check finds \<open>lastReset\<close> an hour old, clears the attempts
  and reports \<open>limited = false\<close>.
\<close>

theorem rate_limit_window_counterexample:
  "(3600000 :: int) - 3000000 < RATE_LIMIT_WINDOW
   \<and> (3600000 :: int) - 3240000 < RATE_LIMIT_WINDOW
   \<and> \<not> limited (fst (checkRateLimit ''a@b.c'' 3600000
         (fold (recordAttempt ''a@b.c'') [3000000, 3060000, 3120000, 3180000, 3240000]
            (snd (checkRateLimit ''a@b.c'' 0 Map.empty)))))"
  by (simp add: checkRateLimit_def recordAttempt_def RATE_LIMIT_WINDOW_def MAX_ATTEMPTS_def)

section \<open>Properties of the booking reference\<close>

lemma digit_chars_decimal: "d < 10 \<Longrightarrow> is_digit (digit_chars ! d) \<and> of_char (digit_chars ! d) - 48 = d"
proof -
  assume "d < 10"
  then have "d \<in> {0, 1, 2, 3, 4, 5, 6, 7, 8, 9}" by auto
  then show ?thesis
    by (auto simp add: digit_chars_def is_digit_def)
qed

lemma to_radix_10_digits: "list_all is_digit (to_radix 10 n)"
proof (induction "10 :: nat" n rule: to_radix.induct)
  case (1 n)
  show ?case
  proof (cases "n < 10")
    case True
    then show ?thesis by (simp add: to_radix.simps [of 10 n] digit_chars_decimal)
  next
    case False
    with 1 show ?thesis by (simp add: to_radix.simps [of 10 n] digit_chars_decimal)
  qed
qed

lemma decimal_value_snoc: "decimal_value (s @ [c]) = 10 * decimal_value s + (of_char c - 48)"
  by (simp add: decimal_value_def)

lemma decimal_value_to_radix: "decimal_value (to_radix 10 n) = n"
proof (induction "10 :: nat" n rule: to_radix.induct)
  case (1 n)
  show ?case
  proof (cases "n < 10")
    case True
    then show ?thesis
      by (simp add: to_radix.simps [of 10 n] digit_chars_decimal decimal_value_def)
  next
    case False
    with 1 show ?thesis
      by (simp add: to_radix.simps [of 10 n] digit_chars_decimal decimal_value_snoc)
  qed
qed

lemma length_to_radix_1: "n < 10 \<Longrightarrow> length (to_radix 10 n) = 1"
  by (simp add: to_radix.simps [of 10 n])

lemma length_to_radix_2: "10 \<le> n \<Longrightarrow> n < 100 \<Longrightarrow> length (to_radix 10 n) = 2"
  by (simp add: to_radix.simps [of 10 n] length_to_radix_1)

lemma length_to_radix_3: "100 \<le> n \<Longrightarrow> n < 1000 \<Longrightarrow> length (to_radix 10 n) = 3"
  by (simp add: to_radix.simps [of 10 n] length_to_radix_2)

lemma length_to_radix_4: "1000 \<le> n \<Longrightarrow> n < 10000 \<Longrightarrow> length (to_radix 10 n) = 4"
  by (simp add: to_radix.simps [of 10 n] length_to_radix_3)

lemma decimal_value_zero: "decimal_value (CHR ''0'' # s) = decimal_value s"
  by (simp add: decimal_value_def)

lemma padStart_two:
  "n < 100 \<Longrightarrow> length (padStart 2 ''0'' (to_radix 10 n)) = 2
     \<and> list_all is_digit (padStart 2 ''0'' (to_radix 10 n))
     \<and> decimal_value (padStart 2 ''0'' (to_radix 10 n)) = n"
proof (cases "n < 10")
  case True
  then show ?thesis
    using to_radix_10_digits [of n] decimal_value_to_radix [of n]
    by (simp add: padStart_def length_to_radix_1 decimal_value_zero is_digit_def)
next
  case False
  assume "n < 100"
  with False show ?thesis
    using to_radix_10_digits [of n] decimal_value_to_radix [of n]
    by (simp add: padStart_def length_to_radix_2)
qed

lemma characters_charAt:
  "k < 36 \<Longrightarrow> \<exists>c. charAt characters k = [c] \<and> (is_upper c \<or> is_digit c)"
proof -
  assume k: "k < 36"
  have "list_all (\<lambda>c. is_upper c \<or> is_digit c) characters"
    by (simp add: characters_def is_upper_def is_digit_def)
  moreover have "length characters = 36" by (simp add: characters_def)
  ultimately show ?thesis using k by (simp add: charAt_def list_all_length)
qed

lemma random_index: "0 \<le> (r::real) \<Longrightarrow> r < 1 \<Longrightarrow> nat \<lfloor>r * 36\<rfloor> < 36"
proof -
  assume "0 \<le> r" "r < 1"
  then have "r * 36 < 36" by simp
  then have "\<lfloor>r * 36\<rfloor> < 36" by (simp add: floor_less_iff)
  then show ?thesis by linarith
qed

text \<open>
  C5. For every current date whose year has four digits (1000 to 9999), the string
  returned by \<open>generateBookingReference\<close> matches the pattern \<open>ADR-YYYYMMDD-XXXX\<close>: the
  prefix 'ADR-', eight digits, a hyphen and four characters among A-Z and 0-9; the eight
  digits are the year, the month (counted from 1) and the day of the current date, the
  last two padded with a zero.
\<close>

theorem booking_reference_pattern:
  assumes year: "1000 \<le> getFullYear now \<and> getFullYear now \<le> 9999"
    and month: "0 \<le> getMonth now \<and> getMonth now \<le> 11"
    and day: "1 \<le> getDate now \<and> getDate now \<le> 31"
    and rnd: "\<forall>i < 4. 0 \<le> random i \<and> random i < 1"
  shows "matches_reference_pattern (generateBookingReference now random)
       \<and> int (decimal_value (take 4 (drop 4 (generateBookingReference now random)))) = getFullYear now
       \<and> int (decimal_value (take 2 (drop 8 (generateBookingReference now random)))) = getMonth now + 1
       \<and> int (decimal_value (take 2 (drop 10 (generateBookingReference now random)))) = getDate now"
proof -
  define Y where "Y = toString 10 (getFullYear now)"
  define M where "M = padStart 2 ''0'' (toString 10 (getMonth now + 1))"
  define D where "D = padStart 2 ''0'' (toString 10 (getDate now))"
  define S where "S = concat (map (\<lambda>i. charAt characters (nat \<lfloor>random i * real (length characters)\<rfloor>)) [0..<4])"
  have Y_eq: "Y = to_radix 10 (nat (getFullYear now))"
    using year by (simp add: Y_def toString_def)
  have Y_len: "length Y = 4"
    unfolding Y_eq using year by (intro length_to_radix_4) linarith+
  have Y_dig: "list_all is_digit Y"
    by (simp add: Y_eq to_radix_10_digits)
  have Y_val: "int (decimal_value Y) = getFullYear now"
    using year by (simp add: Y_eq decimal_value_to_radix)
  have M_eq: "M = padStart 2 ''0'' (to_radix 10 (nat (getMonth now + 1)))"
    using month by (simp add: M_def toString_def)
  have M_all: "length M = 2 \<and> list_all is_digit M \<and> decimal_value M = nat (getMonth now + 1)"
    unfolding M_eq using month by (intro padStart_two) linarith
  have D_eq: "D = padStart 2 ''0'' (to_radix 10 (nat (getDate now)))"
    using day by (simp add: D_def toString_def)
  have D_all: "length D = 2 \<and> list_all is_digit D \<and> decimal_value D = nat (getDate now)"
    unfolding D_eq using day by (intro padStart_two) linarith
  have idx: "\<forall>i < 4. nat \<lfloor>random i * real (length characters)\<rfloor> < 36"
    using rnd by (simp add: characters_def random_index)
  have S_expand: "S = charAt characters (nat \<lfloor>random 0 * real (length characters)\<rfloor>)
                    @ charAt characters (nat \<lfloor>random 1 * real (length characters)\<rfloor>)
                    @ charAt characters (nat \<lfloor>random 2 * real (length characters)\<rfloor>)
                    @ charAt characters (nat \<lfloor>random 3 * real (length characters)\<rfloor>)"
  proof -
    have "[0..<4] = [0, 1, 2, 3 :: nat]" by code_simp
    then show ?thesis by (simp add: S_def)
  qed
  obtain c0 c1 c2 c3 where S_chars: "S = [c0, c1, c2, c3]"
    and ok: "is_upper c0 \<or> is_digit c0" "is_upper c1 \<or> is_digit c1"
            "is_upper c2 \<or> is_digit c2" "is_upper c3 \<or> is_digit c3"
  proof -
    from idx have "nat \<lfloor>random 0 * real (length characters)\<rfloor> < 36"
      "nat \<lfloor>random 1 * real (length characters)\<rfloor> < 36"
      "nat \<lfloor>random 2 * real (length characters)\<rfloor> < 36"
      "nat \<lfloor>random 3 * real (length characters)\<rfloor> < 36" by simp_all
    then show ?thesis
      using that S_expand by (auto dest!: characters_charAt)
  qed
  have ref: "generateBookingReference now random = ''ADR-'' @ Y @ M @ D @ ''-'' @ S"
    by (simp add: generateBookingReference_def Y_def M_def D_def S_def)
  have pat: "matches_reference_pattern (''ADR-'' @ Y @ M @ D @ ''-'' @ S)"
    using Y_len Y_dig M_all D_all ok
    by (simp add: matches_reference_pattern_def S_chars)
  have v1: "take 4 (drop 4 (''ADR-'' @ Y @ M @ D @ ''-'' @ S)) = Y"
    using Y_len by simp
  have v2: "take 2 (drop 8 (''ADR-'' @ Y @ M @ D @ ''-'' @ S)) = M"
    using Y_len M_all by simp
  have v3: "take 2 (drop 10 (''ADR-'' @ Y @ M @ D @ ''-'' @ S)) = D"
    using Y_len M_all D_all by simp
  show ?thesis
    unfolding ref v1 v2 v3 using pat Y_val M_all D_all month day by simp
qed

theorem booking_reference_pattern_witness:
  "matches_reference_pattern
     (generateBookingReference \<lparr>getFullYear = 2026, getMonth = 10, getDate = 3\<rparr> (\<lambda>i. 1 / 2))
   \<and> generateBookingReference \<lparr>getFullYear = 2026, getMonth = 10, getDate = 3\<rparr> (\<lambda>i. 1 / 2)
       = ''ADR-20261103-SSSS''"
proof -
  have "generateBookingReference \<lparr>getFullYear = 2026, getMonth = 10, getDate = 3\<rparr> (\<lambda>i. 1 / 2)
       = ''ADR-20261103-SSSS''"
    by (simp add: generateBookingReference_def toString_def to_radix.simps padStart_def
        charAt_def characters_def digit_chars_def upt_rec)
  moreover have "matches_reference_pattern
     (generateBookingReference \<lparr>getFullYear = 2026, getMonth = 10, getDate = 3\<rparr> (\<lambda>i. 1 / 2))"
    using booking_reference_pattern
      [of "\<lparr>getFullYear = 2026, getMonth = 10, getDate = 3\<rparr>" "\<lambda>i. 1 / 2"]
    by simp
  ultimately show ?thesis by simp
qed

section \<open>Properties of the slot queries\<close>

lemmas example_defs = slot_free_def slot_booked_def booking_r1_def example_backend_def
  with_service_key_def anon_denied_def public_site_def unrestricted_def denied_def
  public_key_def public_read_policy_def

lemma slots_in_range_sound:
  "slots_in_range c db a b = Inr result \<Longrightarrow>
   set result = {s \<in> set (slots db). sees_slot c s \<and> a \<le> start_time s \<and> end_time s \<le> b}
   \<and> sorted (map start_time result)"
  by (auto simp add: slots_in_range_def select_slots_def split: option.splits)

lemma slots_in_range_eq:
  "refuses c Slots Select = None \<Longrightarrow>
   slots_in_range c db a b =
     Inr (sort_key start_time
            (filter (\<lambda>s. sees_slot c s \<and> a \<le> start_time s \<and> end_time s \<le> b) (slots db)))"
  by (simp add: slots_in_range_def select_slots_def)

lemma slots_in_range_refused:
  "refuses c Slots Select = Some error \<Longrightarrow> slots_in_range c db a b = Inl error"
  by (simp add: slots_in_range_def select_slots_def)

lemma closest_slot_available:
  assumes ok: "getClosestAvailableSlot cl db now futureDate = Inr (Some closest)"
  shows "closest \<in> set (slots db) \<and> is_available closest"
proof -
  from ok obtain rows where rows: "select_slots (supabase cl) db
           (\<lambda>s. now \<le> start_time s \<and> start_time s \<le> futureDate \<and> is_available s = True) = Inr rows"
    and pick: "take 1 (sort_key start_time rows) \<noteq> []"
              "closest = take 1 (sort_key start_time rows) ! 0"
    by (auto simp add: getClosestAvailableSlot_def Let_def split: sum.splits if_splits)
  from pick have "closest \<in> set (sort_key start_time rows)"
    by (cases "sort_key start_time rows") auto
  then have "closest \<in> set rows" by simp
  with rows show ?thesis
    by (auto simp add: select_slots_def split: option.splits)
qed

text \<open>
  C1 (as amended). For every date range, every slot that \<open>getAvailableSlots\<close> returns is
  a row of the slots table inside the range, and the result is in the order of the start
  times. The function itself does not look at the \<open>is_available\<close> flag; what it returns
  is decided by the client that answers:
  \<^item> when the query made with the public key is answered, the result is exactly the rows
    of the range that the row-level policy lets that key read; under the policy of the
    repository for slots (public read access to available slots) these are exactly the
    available slots of the range, so no slot whose flag is false is returned;
  \<^item> when that query is refused with code 42501 and a service key is configured, the
    result is what the service-role client reads; as that client bypasses row-level
    security, these are all the slots of the range, booked ones included.

  \<open>getClosestAvailableSlot\<close>, which filters on the flag itself, returns only a slot
  marked available.
\<close>

theorem available_slots_by_policy:
  "(getAvailableSlots cl db startDate endDate = Inr result \<longrightarrow>
      (\<forall>s \<in> set result. s \<in> set (slots db) \<and> startDate \<le> start_time s \<and> end_time s \<le> endDate)
      \<and> sorted (map start_time result))
   \<and> (refuses (supabase cl) Slots Select = None \<longrightarrow>
        getAvailableSlots cl db startDate endDate =
          Inr (sort_key start_time
                 (filter (\<lambda>s. sees_slot (supabase cl) s \<and> startDate \<le> start_time s \<and> end_time s \<le> endDate)
                    (slots db))))
   \<and> (refuses (supabase cl) Slots Select = None \<and> sees_slot (supabase cl) = public_read_policy
        \<and> getAvailableSlots cl db startDate endDate = Inr result \<longrightarrow>
        set result = {s \<in> set (slots db). is_available s
                        \<and> startDate \<le> start_time s \<and> end_time s \<le> endDate})
   \<and> (refuses (supabase cl) Slots Select = Some error \<and> code error = ''42501''
        \<and> adminSupabase cl = Some admin \<and> refuses admin Slots Select = None \<longrightarrow>
        getAvailableSlots cl db startDate endDate =
          Inr (sort_key start_time
                 (filter (\<lambda>s. sees_slot admin s \<and> startDate \<le> start_time s \<and> end_time s \<le> endDate)
                    (slots db))))
   \<and> (refuses (supabase cl) Slots Select = Some error \<and> code error = ''42501''
        \<and> adminSupabase cl = Some admin \<and> refuses admin Slots Select = None
        \<and> sees_slot admin = (\<lambda>s. True)
        \<and> getAvailableSlots cl db startDate endDate = Inr result \<longrightarrow>
        set result = {s \<in> set (slots db). startDate \<le> start_time s \<and> end_time s \<le> endDate})
   \<and> (getClosestAvailableSlot cl db now futureDate = Inr (Some closest) \<longrightarrow>
        closest \<in> set (slots db) \<and> is_available closest)"
proof -
  have range: "getAvailableSlots cl db startDate endDate = Inr result \<longrightarrow>
      (\<forall>s \<in> set result. s \<in> set (slots db) \<and> startDate \<le> start_time s \<and> end_time s \<le> endDate)
      \<and> sorted (map start_time result)"
  proof
    assume ok: "getAvailableSlots cl db startDate endDate = Inr result"
    then obtain c where "slots_in_range c db startDate endDate = Inr result"
      by (auto simp add: getAvailableSlots_def split: sum.splits if_splits)
    from slots_in_range_sound [OF this]
    show "(\<forall>s \<in> set result. s \<in> set (slots db) \<and> startDate \<le> start_time s \<and> end_time s \<le> endDate)
      \<and> sorted (map start_time result)" by simp
  qed
  have answered: "refuses (supabase cl) Slots Select = None \<longrightarrow>
        getAvailableSlots cl db startDate endDate =
          Inr (sort_key start_time
                 (filter (\<lambda>s. sees_slot (supabase cl) s \<and> startDate \<le> start_time s \<and> end_time s \<le> endDate)
                    (slots db)))"
    by (simp add: getAvailableSlots_def slots_in_range_eq)
  have policy: "refuses (supabase cl) Slots Select = None \<and> sees_slot (supabase cl) = public_read_policy
        \<and> getAvailableSlots cl db startDate endDate = Inr result \<longrightarrow>
        set result = {s \<in> set (slots db). is_available s
                        \<and> startDate \<le> start_time s \<and> end_time s \<le> endDate}"
    using answered by (auto simp add: public_read_policy_def)
  have fallback: "refuses (supabase cl) Slots Select = Some error \<and> code error = ''42501''
        \<and> adminSupabase cl = Some admin \<and> refuses admin Slots Select = None \<longrightarrow>
        getAvailableSlots cl db startDate endDate =
          Inr (sort_key start_time
                 (filter (\<lambda>s. sees_slot admin s \<and> startDate \<le> start_time s \<and> end_time s \<le> endDate)
                    (slots db)))"
    by (simp add: getAvailableSlots_def slots_in_range_eq slots_in_range_refused)
  have bypass: "refuses (supabase cl) Slots Select = Some error \<and> code error = ''42501''
        \<and> adminSupabase cl = Some admin \<and> refuses admin Slots Select = None
        \<and> sees_slot admin = (\<lambda>s. True)
        \<and> getAvailableSlots cl db startDate endDate = Inr result \<longrightarrow>
        set result = {s \<in> set (slots db). startDate \<le> start_time s \<and> end_time s \<le> endDate}"
    using fallback by auto
  have closest: "getClosestAvailableSlot cl db now futureDate = Inr (Some closest) \<longrightarrow>
        closest \<in> set (slots db) \<and> is_available closest"
    using closest_slot_available by blast
  from range answered policy fallback bypass closest show ?thesis by blast
qed

theorem available_slots_by_policy_witness:
  "getAvailableSlots public_site example_backend 0 10000 = Inr [slot_free]
   \<and> set [slot_free] = {s \<in> set (slots example_backend). is_available s
                           \<and> 0 \<le> start_time s \<and> end_time s \<le> 10000}
   \<and> getAvailableSlots anon_denied example_backend 0 10000 = Inr [slot_free, slot_booked]
   \<and> set [slot_free, slot_booked]
       = {s \<in> set (slots example_backend). 0 \<le> start_time s \<and> end_time s \<le> 10000}
   \<and> getClosestAvailableSlot public_site example_backend 0 10000 = Inr (Some slot_free)
   \<and> slot_free \<in> set (slots example_backend) \<and> is_available slot_free"
proof -
  let ?refusal = "\<lparr>code = ''42501'', message = ''permission denied''\<rparr>"
  have public: "getAvailableSlots public_site example_backend 0 10000 = Inr [slot_free]"
    by (simp add: getAvailableSlots_def slots_in_range_def select_slots_def example_defs)
  have service: "getAvailableSlots anon_denied example_backend 0 10000 = Inr [slot_free, slot_booked]"
    by (simp add: getAvailableSlots_def slots_in_range_def select_slots_def example_defs)
  have first: "getClosestAvailableSlot public_site example_backend 0 10000 = Inr (Some slot_free)"
    by (simp add: getClosestAvailableSlot_def select_slots_def example_defs)
  have answered: "refuses (supabase public_site) Slots Select = None
      \<and> sees_slot (supabase public_site) = public_read_policy"
    by (simp add: public_site_def public_key_def)
  have refused: "refuses (supabase anon_denied) Slots Select = Some ?refusal
      \<and> code ?refusal = ''42501'' \<and> adminSupabase anon_denied = Some unrestricted
      \<and> refuses unrestricted Slots Select = None \<and> sees_slot unrestricted = (\<lambda>s. True)"
    by (simp add: anon_denied_def denied_def unrestricted_def)
  from available_slots_by_policy [of public_site example_backend 0 10000 "[slot_free]"
      ?refusal unrestricted 0 10000 slot_free] public first answered
  have one: "set [slot_free] = {s \<in> set (slots example_backend). is_available s
                           \<and> 0 \<le> start_time s \<and> end_time s \<le> 10000}
      \<and> slot_free \<in> set (slots example_backend) \<and> is_available slot_free"
    by blast
  from available_slots_by_policy [of anon_denied example_backend 0 10000
      "[slot_free, slot_booked]" ?refusal unrestricted 0 10000 slot_free] service refused
  have two: "set [slot_free, slot_booked]
       = {s \<in> set (slots example_backend). 0 \<le> start_time s \<and> end_time s \<le> 10000}"
    by blast
  from public service first one two show ?thesis by blast
qed

text \<open>
  The claim as first stated fails on the fallback in \<open>getAvailableSlots\<close>: when the
  query with the public key is refused with code 42501, the function asks again with the
  service-role client and returns the booked slot s2 of the range.
\<close>

theorem available_slots_counterexample:
  "getAvailableSlots anon_denied example_backend 0 10000 = Inr [slot_free, slot_booked]
   \<and> slot_booked \<in> set [slot_free, slot_booked]
   \<and> is_available slot_booked = False"
  by (simp add: getAvailableSlots_def slots_in_range_def select_slots_def example_defs)
section \<open>Properties of cancellation and deletion\<close>

lemma cancelReservation_slots:
  "slots (snd (cancelReservation cl db reservationId)) = slots db"
  by (simp add: cancelReservation_def delete_reservations_def split: option.splits)

lemma updateReservationStatus_slots:
  "updateReservationStatus cl db reservationId new_status reason = Inr (r, db') \<Longrightarrow>
   slots db' = slots db"
  by (auto simp add: updateReservationStatus_def update_reservations_def split: option.splits)

text \<open>
  C2 fails on the code. In the example backend the reservation r1 holds the slot s2, which
  is marked unavailable. The cancellation open to the user deletes the reservation and
  leaves s2 unavailable; a status change to 'cancelled' changes the reservation only; the
  deletion by the administrator is the one path that sets \<open>is_available\<close> of s2 back to
  true.
\<close>

theorem cancellation_keeps_slot_unavailable:
  "cancelReservation with_service_key example_backend ''r1''
     = (Cancelled, example_backend\<lparr>reservations := []\<rparr>)
   \<and> map is_available (slots (snd (cancelReservation with_service_key example_backend ''r1'')))
     = [True, False]
   \<and> updateReservationStatus with_service_key example_backend ''r1'' ''cancelled'' ''no show''
     = Inr (Some (booking_r1\<lparr>status := ''cancelled'', status_reason := ''no show''\<rparr>),
            example_backend\<lparr>reservations :=
              [booking_r1\<lparr>status := ''cancelled'', status_reason := ''no show''\<rparr>]\<rparr>)
   \<and> deleteReservation with_service_key example_backend ''r1''
     = (Inr booking_r1,
        example_backend\<lparr>reservations := [], slots := [slot_free, slot_booked\<lparr>is_available := True\<rparr>]\<rparr>)"
  by (simp add: cancelReservation_def updateReservationStatus_def deleteReservation_def
      resetSlotAvailability_def delete_reservations_def update_reservations_def
      select_reservations_def update_slots_def single_def truthy_def example_defs)

section \<open>Properties of the administrator login\<close>

lemma and32_same: "and32 a a = to_int32 a"
  by (simp add: and32_def)

lemma hash_loop_step:
  "hash_loop hash (c # cs) = hash_loop (to_int32 (shift_left32 hash 5 - hash + uint c)) cs"
  by (simp add: Let_def and32_same)

lemma to_int32_word: "to_int32 x = sint (word_of_int x :: 32 word)"
  by (simp add: to_int32_def int_word_sint)

lemma word_of_sint32: "(word_of_int (sint w) :: 32 word) = w" for w :: "32 word"
  by (simp flip: scast_eq)

lemma shift_left32_word: "shift_left32 (sint w) 5 = sint (push_bit 5 w)" for w :: "32 word"
proof -
  have "(word_of_int (sint w * 2 ^ 5) :: 32 word) = word_of_int (sint w) * word_of_int (2 ^ 5)"
    by (rule wi_hom_syms(3))
  also have "\<dots> = push_bit 5 w"
    by (simp add: word_of_sint32 push_bit_eq_mult)
  finally show ?thesis
    by (simp add: shift_left32_def to_int32_word word_of_sint32)
qed

lemma step32:
  "to_int32 (shift_left32 (sint w) 5 - sint w + uint c)
     = sint (push_bit 5 w - w + ucast c)" for w :: "32 word" and c :: "16 word"
proof -
  have "(word_of_int (sint (push_bit 5 w) - sint w + uint c) :: 32 word)
      = word_of_int (sint (push_bit 5 w)) - word_of_int (sint w) + word_of_int (uint c)"
    by (simp only: wi_hom_syms(1) wi_hom_syms(2))
  also have "\<dots> = push_bit 5 w - w + ucast c"
    by (simp only: word_of_sint32 ucast_eq)
  finally show ?thesis
    by (simp only: shift_left32_word to_int32_word)
qed


lemma hash_loop_rolling:
  "hash_loop (sint w) password
     = sint (foldl (\<lambda>hash c. push_bit 5 hash - hash + ucast c) w password)" for w :: "32 word"
proof (induction password arbitrary: w)
  case Nil
  show ?case by simp
next
  case (Cons c cs)
  have "hash_loop (sint w) (c # cs) = hash_loop (sint (push_bit 5 w - w + ucast c)) cs"
    by (simp only: hash_loop_step step32)
  also have "\<dots> = sint (foldl (\<lambda>hash c. push_bit 5 hash - hash + ucast c)
                          (push_bit 5 w - w + ucast c) cs)"
    by (rule Cons.IH)
  finally show ?case by (simp only: foldl_Cons)
qed

lemma hashPassword_rolling: "hashPassword password = toString 16 (sint (rolling_hash password))"
proof -
  have "hash_loop 0 password = hash_loop (sint (0 :: 32 word)) password" by simp
  then show ?thesis
    by (simp only: hashPassword_def rolling_hash_def hash_loop_rolling)
qed

text \<open>
  C6. Let the service key be configured and let the settings table hold one row for the
  key 'admin_password_hash', with a non-empty value, the stored hash. Then:
  \<^item> \<open>loginAdmin\<close> succeeds only if the hash of the supplied password equals the stored
    hash, and it does succeed when they are equal and the signing of the token does not
    fail; the token it mints and stores has the role 'admin', is issued at the current
    time and expires one hour later;
  \<^item> when the hashes differ it returns the failure 'Invalid password' and stores nothing;
  \<^item> the hash is the rolling hash \<open>hash = (hash << 5) - hash + charCode\<close> computed in
    32 bits, read as a signed number and rendered in hexadecimal.
\<close>

theorem admin_login:
  assumes admin: "adminSupabase cl = Some admin"
    and stored: "select_settings admin db ''admin_password_hash'' = Inr [storedHash]"
    and set_up: "storedHash \<noteq> []"
  shows "(\<forall>token storage'. loginAdmin e cl db storage password = (Login_ok token, storage')
            \<longrightarrow> hashPassword password = storedHash)
       \<and> (hashPassword password = storedHash \<and> crypto_failure e = None \<longrightarrow>
            (\<exists>token. loginAdmin e cl db storage password
                       = (Login_ok token, storage(''admin_token'' \<mapsto> Stored_token token))
                   \<and> payload token = [(''role'', ''admin'')]
                   \<and> exp_claim token = iat_claim token + 60 * 60
                   \<and> iat_claim token = env_now e div 1000
                   \<and> signed_with token = JWT_SECRET e))
       \<and> (hashPassword password \<noteq> storedHash \<longrightarrow>
            loginAdmin e cl db storage password = (Login_failed ''Invalid password'', storage))
       \<and> hashPassword password = toString 16 (sint (rolling_hash password))"
proof -
  have login: "loginAdmin e cl db storage password =
      (if hashPassword password = storedHash then
         (case sign_jwt e [(''role'', ''admin'')] 3600 of
            Inl err \<Rightarrow> (Login_failed ''Authentication error'', storage)
          | Inr token \<Rightarrow> (Login_ok token, storage(TOKEN_KEY \<mapsto> Stored_token token)))
       else (Login_failed ''Invalid password'', storage))"
    using admin stored set_up
    by (simp add: loginAdmin_def ADMIN_PASSWORD_KEY_def single_def)
  have only_if: "\<forall>token storage'. loginAdmin e cl db storage password = (Login_ok token, storage')
            \<longrightarrow> hashPassword password = storedHash"
    by (simp add: login)
  have if_match: "hashPassword password = storedHash \<and> crypto_failure e = None \<longrightarrow>
            (\<exists>token. loginAdmin e cl db storage password
                       = (Login_ok token, storage(''admin_token'' \<mapsto> Stored_token token))
                   \<and> payload token = [(''role'', ''admin'')]
                   \<and> exp_claim token = iat_claim token + 60 * 60
                   \<and> iat_claim token = env_now e div 1000
                   \<and> signed_with token = JWT_SECRET e)"
    by (simp add: login sign_jwt_def TOKEN_KEY_def)
  have mismatch: "hashPassword password \<noteq> storedHash \<longrightarrow>
            loginAdmin e cl db storage password = (Login_failed ''Invalid password'', storage)"
    by (simp add: login)
  from only_if if_match mismatch hashPassword_rolling show ?thesis by blast
qed

lemma hash_pw: "hashPassword [112, 119] = ''e07''"
  by (simp add: hashPassword_def hash_loop_step shift_left32_def to_int32_def toString_def
      to_radix.simps digit_chars_def del: hash_loop.simps(2))

lemma hash_px: "hashPassword [112, 120] = ''e08''"
  by (simp add: hashPassword_def hash_loop_step shift_left32_def to_int32_def toString_def
      to_radix.simps digit_chars_def del: hash_loop.simps(2))

text \<open>
  A password of eight letters z overflows 32 bits; its hash is negative and is rendered
  with a minus sign.
\<close>

lemma hash_negative: "hashPassword [122, 122, 122, 122, 122, 122, 122, 122] = ''-71d8a300''"
  by (simp add: hashPassword_def hash_loop_step shift_left32_def to_int32_def toString_def
      to_radix.simps digit_chars_def del: hash_loop.simps(2))

theorem admin_login_witness:
  "loginAdmin example_env with_service_key example_backend Map.empty [112, 119]
     = (Login_ok \<lparr>alg = ''HS256'', payload = [(''role'', ''admin'')], iat_claim = 0,
                  exp_claim = 3600, signed_with = ''admin-secret-key''\<rparr>,
        [''admin_token'' \<mapsto> Stored_token
           \<lparr>alg = ''HS256'', payload = [(''role'', ''admin'')], iat_claim = 0,
              exp_claim = 3600, signed_with = ''admin-secret-key''\<rparr>])
   \<and> loginAdmin example_env with_service_key example_backend Map.empty [112, 120]
       = (Login_failed ''Invalid password'', Map.empty)"
proof -
  have admin: "adminSupabase with_service_key = Some unrestricted"
    by (simp add: with_service_key_def)
  have stored: "select_settings unrestricted example_backend ''admin_password_hash'' = Inr [''e07'']"
    by (simp add: select_settings_def unrestricted_def example_backend_def)
  have set_up: "''e07'' \<noteq> []" by simp
  have works: "crypto_failure example_env = None"
    by (simp add: example_env_def)
  from admin_login [where e = example_env and storage = Map.empty and password = "[112, 119]",
      OF admin stored set_up] hash_pw works
  obtain token where good: "loginAdmin example_env with_service_key example_backend Map.empty [112, 119]
               = (Login_ok token, [''admin_token'' \<mapsto> Stored_token token])"
    and claims: "payload token = [(''role'', ''admin'')]"
      "exp_claim token = iat_claim token + 60 * 60"
      "iat_claim token = env_now example_env div 1000"
      "signed_with token = JWT_SECRET example_env"
    by auto
  have "alg token = ''HS256''"
    using good admin stored hash_pw works
    by (auto simp add: loginAdmin_def ADMIN_PASSWORD_KEY_def single_def sign_jwt_def)
  with claims have token: "token = \<lparr>alg = ''HS256'', payload = [(''role'', ''admin'')], iat_claim = 0,
                  exp_claim = 3600, signed_with = ''admin-secret-key''\<rparr>"
    by (cases token) (simp add: example_env_def)
  from admin_login [where e = example_env and storage = Map.empty and password = "[112, 120]",
      OF admin stored set_up] hash_px
  have bad: "loginAdmin example_env with_service_key example_backend Map.empty [112, 120]
       = (Login_failed ''Invalid password'', Map.empty)"
    by simp
  from good token bad show ?thesis by simp
qed

section \<open>Properties of the slot selection\<close>

lemma split_units:
  fixes t :: int
  assumes "0 < k" and "0 < n"
  shows "t div (k * n) * (k * n) + (t div k) mod n * k = t div k * k"
proof -
  define h where "h = t div k"
  have coarse: "t div (k * n) = h div n"
    using assms by (simp add: h_def zdiv_zmult2_eq)
  have "h div n * n + h mod n = h"
    by (rule div_mult_mod_eq)
  then have "(h div n * n + h mod n) * k = h * k"
    by (simp only:)
  moreover have "(h div n * n + h mod n) * k = h div n * (k * n) + h mod n * k"
    by (simp only: distrib_right mult.assoc mult.commute [of n k])
  ultimately have "h div n * (k * n) + h mod n * k = h * k"
    by (simp only:)
  with coarse show ?thesis
    by (simp add: h_def)
qed

lemma hours_of_day:
  "(t::int) div 86400000 * 86400000 + (t div 3600000) mod 24 * 3600000 = t div 3600000 * 3600000"
proof -
  have "(3600000::int) * 24 = 86400000" by simp
  with split_units [of 3600000 24 t] show ?thesis by (simp only:)
qed

lemma minutes_of_hour:
  "(t::int) div 3600000 * 3600000 + (t div 60000) mod 60 * 60000 = t div 60000 * 60000"
proof -
  have "(60000::int) * 60 = 3600000" by simp
  with split_units [of 60000 60 t] show ?thesis by (simp only:)
qed

lemma seconds_of_minute:
  "(t::int) div 60000 * 60000 + (t div 1000) mod 60 * 1000 = t div 1000 * 1000"
proof -
  have "(1000::int) * 60 = 60000" by simp
  with split_units [of 1000 60 t] show ?thesis by (simp only:)
qed

lemma time_parts:
  "MakeDate (Day t) (MakeTime (HourFromTime t) (MinFromTime t) (SecFromTime t) (msFromTime t)) = t"
proof -
  have "t div 1000 * 1000 + t mod 1000 = t"
    by (rule div_mult_mod_eq)
  with hours_of_day [of t] minutes_of_hour [of t] seconds_of_minute [of t]
  have "t div 86400000 * 86400000 + (t div 3600000) mod 24 * 3600000
        + (t div 60000) mod 60 * 60000 + (t div 1000) mod 60 * 1000 + t mod 1000 = t"
    by (simp only:)
  then show ?thesis
    unfolding MakeDate_def MakeTime_def Day_def HourFromTime_def MinFromTime_def
        SecFromTime_def msFromTime_def msPerDay_def msPerHour_def
    by (simp only: add.assoc)
qed

lemma hour_floor:
  "MakeDate (Day t) (MakeTime (HourFromTime t) 0 0 0) = t - t mod 3600000"
proof -
  have "t div 3600000 * 3600000 = t - t mod 3600000"
    by (rule minus_mod_eq_div_mult [symmetric])
  with hours_of_day [of t]
  have "t div 86400000 * 86400000 + (t div 3600000) mod 24 * 3600000 = t - t mod 3600000"
    by (simp only:)
  then show ?thesis
    unfolding MakeDate_def MakeTime_def Day_def HourFromTime_def msPerDay_def msPerHour_def
    by (simp only: mult_zero_left add_0_right)
qed

lemma one_hour_later:
  "MakeDate (Day t) (MakeTime (HourFromTime t + 1) (MinFromTime t) (SecFromTime t) (msFromTime t))
     = t + 3600000"
proof -
  have "MakeDate (Day t) (MakeTime (HourFromTime t + 1) (MinFromTime t) (SecFromTime t) (msFromTime t))
      = MakeDate (Day t) (MakeTime (HourFromTime t) (MinFromTime t) (SecFromTime t) (msFromTime t))
        + 3600000"
    unfolding MakeDate_def MakeTime_def msPerHour_def
    by (simp only: distrib_right mult_1 add.assoc add.left_commute [of 3600000] add.commute [of 3600000])
  then show ?thesis by (simp only: time_parts)
qed

text \<open>
  In a time zone whose offset does not change around the current time,
  \<open>isSlotDisabled\<close> compares the start of the slot with the next full-hour boundary as
  the specification words it. The boundary lies after the current time, at most one hour
  after it, on a full hour of local time.
\<close>

lemma isSlotDisabled_fixed_offset:
  assumes zone: "LocalTZA e = (\<lambda>t isUTC. offset)"
  shows "isSlotDisabled e startTime = (startTime \<le> next_full_hour e offset)"
proof -
  have current: "setMinutes e (env_now e) 0 0 0
      = env_now e + offset - (env_now e + offset) mod 3600000 - offset"
    by (simp add: setMinutes_def LocalTime_def UTC_def zone hour_floor Let_def)
  have later: "setHours e t (getHours e t + 1) = t + 3600000" for t
    by (simp add: setHours_def getHours_def LocalTime_def UTC_def zone one_hour_later Let_def)
  have "(env_now e + offset) div 3600000 * 3600000
        = (env_now e + offset) - (env_now e + offset) mod 3600000"
    by (simp add: minus_mod_eq_div_mult)
  then have "setMinutes e (env_now e) 0 0 0 + 3600000 = next_full_hour e offset"
    by (simp add: current next_full_hour_def algebra_simps)
  then show ?thesis
    by (simp add: isSlotDisabled_def Let_def later)
qed

lemma next_full_hour_bounds:
  "env_now e < next_full_hour e offset \<and> next_full_hour e offset \<le> env_now e + 3600000
   \<and> (next_full_hour e offset + offset) mod 3600000 = 0"
proof -
  have m: "0 \<le> (env_now e + offset) mod 3600000 \<and> (env_now e + offset) mod 3600000 < 3600000"
    by simp
  have d: "(env_now e + offset) div 3600000 * 3600000
        = (env_now e + offset) - (env_now e + offset) mod 3600000"
    by (simp add: minus_mod_eq_div_mult)
  have "(next_full_hour e offset + offset) mod 3600000 = 0"
    by (simp add: next_full_hour_def)
  moreover have "next_full_hour e offset
      = env_now e - (env_now e + offset) mod 3600000 + 3600000"
    using d by (simp add: next_full_hour_def algebra_simps)
  ultimately show ?thesis using m by linarith
qed

text \<open>
  Where the offset changes, the boundary is the one the local clock gives: in New York,
  half an hour before daylight-saving time ends, the local hour after 01:00 is 02:00
  standard time, two hours later, and a slot that starts at 06:30 UTC is disabled.
\<close>

lemma ny_now: "env_now new_york_env = 1793511000000"
  by (simp add: new_york_env_def)

lemma ny_zone: "LocalTZA new_york_env = new_york"
  by (simp add: new_york_env_def)

lemma ny_current: "setMinutes new_york_env 1793511000000 0 0 0 = 1793509200000"
proof -
  have "LocalTime new_york_env 1793511000000 = 1793496600000"
    by (simp add: LocalTime_def ny_zone new_york_def)
  moreover have "MakeDate (Day 1793496600000) (MakeTime (HourFromTime 1793496600000) 0 0 0)
      = 1793494800000"
    by (simp add: hour_floor)
  moreover have "UTC new_york_env 1793494800000 = 1793509200000"
    by (simp add: UTC_def ny_zone new_york_def)
  ultimately show ?thesis
    by (simp only: setMinutes_def Let_def)
qed

lemma ny_later:
  "setHours new_york_env 1793509200000 (getHours new_york_env 1793509200000 + 1) = 1793516400000"
proof -
  have local: "LocalTime new_york_env 1793509200000 = 1793494800000"
    by (simp add: LocalTime_def ny_zone new_york_def)
  have "MakeDate (Day 1793494800000) (MakeTime (HourFromTime 1793494800000 + 1)
          (MinFromTime 1793494800000) (SecFromTime 1793494800000) (msFromTime 1793494800000))
      = 1793498400000"
    by (simp add: one_hour_later)
  moreover have "UTC new_york_env 1793498400000 = 1793516400000"
    by (simp add: UTC_def ny_zone new_york_def)
  ultimately show ?thesis
    by (simp only: setHours_def getHours_def local Let_def)
qed

lemma isSlotDisabled_daylight_saving:
  "setMinutes new_york_env (env_now new_york_env) 0 0 0 = 1793509200000
   \<and> setHours new_york_env 1793509200000 (getHours new_york_env 1793509200000 + 1)
        = 1793516400000
   \<and> isSlotDisabled new_york_env 1793514600000"
  by (simp add: isSlotDisabled_def ny_now ny_current ny_later)

text \<open>
  \<open>handleSlotSelect\<close> refuses a disabled slot: the selection stays as it was, and for a
  slot with an identifier the only change is the error message.
\<close>

lemma handleSlotSelect_refuses:
  assumes disabled: "isSlotDisabled e (start_time s)"
  shows "selectedSlot (handleSlotSelect e cl db st (Some s)) = selectedSlot st
       \<and> (id_slot s \<noteq> [] \<longrightarrow>
            handleSlotSelect e cl db st (Some s) = st\<lparr>submitError := Some
              ''Cannot select a slot in the past or within the next hour. Please select a future time slot.''\<rparr>)"
  using disabled by (simp add: handleSlotSelect_def)

text \<open>While no slot is selected, the page shows no error message at all.\<close>

lemma no_selection_no_message:
  "selectedSlot st = None \<Longrightarrow> shown_error st = None"
  by (simp add: shown_error_def)

text \<open>
  The quick booking selects the stored slot when it is still available; the start of the
  slot plays no part.
\<close>

lemma quickBookEffect_selects:
  assumes opened: "quick st = Some ''true''"
    and available: "verifySlotAvailability cl db (id_slot s) = Inr True"
  shows "quickBookEffect cl db (Json_slot s) st
           = (st\<lparr>selectedSlot := Some s, isQuickLoading := False\<rparr>, No_item)"
  using opened available by (simp add: quickBookEffect_def Let_def)

text \<open>
  C10 fails on the code. At the time 500 the free slot s1 starts at 1000, within the next
  hour, and \<open>isSlotDisabled\<close> returns true for it.
  \<^item> Chosen in the calendar, it is refused: \<open>handleSlotSelect\<close> sets the error 'Cannot
    select a slot in the past or within the next hour...' and selects nothing; but with
    no slot selected the page does not show the message.
  \<^item> Chosen by the quick booking, it is selected: \<open>handleQuickBook\<close> finds it as the
    closest available slot and stores it, and the effect of the booking page selects it
    after the availability check alone, without asking \<open>isSlotDisabled\<close>.
\<close>

theorem disabled_slot_selected_by_quick_book:
  "isSlotDisabled example_env (start_time slot_free)
   \<and> handleSlotSelect example_env public_site example_backend
        (example_page\<lparr>selectedSlot := None\<rparr>) (Some slot_free)
       = example_page\<lparr>selectedSlot := None, submitError := Some
           ''Cannot select a slot in the past or within the next hour. Please select a future time slot.''\<rparr>
   \<and> shown_error (handleSlotSelect example_env public_site example_backend
        (example_page\<lparr>selectedSlot := None\<rparr>) (Some slot_free)) = None
   \<and> handleQuickBook public_site example_backend (env_now example_env) 10000
       = Quick_stored slot_free
   \<and> quickBookEffect public_site example_backend (Json_slot slot_free) quick_page
       = (quick_page\<lparr>selectedSlot := Some slot_free\<rparr>, No_item)
   \<and> selectedSlot (fst (quickBookEffect public_site example_backend (Json_slot slot_free)
        quick_page)) = Some slot_free"
proof -
  have zone: "LocalTZA example_env = (\<lambda>t isUTC. 0)"
    by (simp add: example_env_def)
  have "start_time slot_free \<le> next_full_hour example_env 0"
    by (simp add: next_full_hour_def slot_free_def example_env_def)
  then have disabled: "isSlotDisabled example_env (start_time slot_free)"
    by (simp only: isSlotDisabled_fixed_offset [OF zone])
  have ident: "id_slot slot_free \<noteq> []"
    by (simp add: slot_free_def)
  have refused: "handleSlotSelect example_env public_site example_backend
        (example_page\<lparr>selectedSlot := None\<rparr>) (Some slot_free)
       = example_page\<lparr>selectedSlot := None, submitError := Some
           ''Cannot select a slot in the past or within the next hour. Please select a future time slot.''\<rparr>"
    using handleSlotSelect_refuses [OF disabled] ident by simp
  have hidden: "shown_error (handleSlotSelect example_env public_site example_backend
        (example_page\<lparr>selectedSlot := None\<rparr>) (Some slot_free)) = None"
    by (simp add: refused no_selection_no_message)
  have stored: "handleQuickBook public_site example_backend (env_now example_env) 10000
       = Quick_stored slot_free"
    by (simp add: handleQuickBook_def checkSlotsExist_def getClosestAvailableSlot_def
        select_slots_def example_env_def example_defs)
  have available: "verifySlotAvailability public_site example_backend (id_slot slot_free) = Inr True"
    by (simp add: verifySlotAvailability_def slot_availability_def select_slots_def single_def
        example_defs)
  have opened: "quick quick_page = Some ''true''"
    by (simp add: quick_page_def)
  have selected: "quickBookEffect public_site example_backend (Json_slot slot_free) quick_page
       = (quick_page\<lparr>selectedSlot := Some slot_free\<rparr>, No_item)"
    using quickBookEffect_selects [OF opened available]
    by (simp add: quick_page_def example_page_def)
  from disabled refused hidden stored selected show ?thesis by simp
qed
section \<open>Properties of the booking submission\<close>

lemma confirm_booking_calls:
  "\<exists>new. calls (fst (snd (confirm_booking e cl w st sel))) = calls w @ new
     \<and> (\<forall>a. Called_getUserReservationCount a \<notin> set new)
     \<and> (\<forall>a. Called_verifySlotAvailability a \<notin> set new)
     \<and> (Called_sendBookingConfirmationEmail \<in> set new \<longrightarrow>
          fst (confirm_booking e cl w st sel) = None
          \<and> (\<exists>ref. snd (snd (confirm_booking e cl w st sel))
                 = st\<lparr>confirmedBooking := Some \<lparr>confirmed_slot = sel, confirmed_user = formData st,
                              confirmed_reference = ref\<rparr>,
                          submitSuccess := True\<rparr>))"
  by (auto simp add: confirm_booking_def Let_def split: prod.splits registration.splits sum.splits)

lemma check_slot_none:
  "selectedSlot st = None \<Longrightarrow>
   check_slot_and_book e cl w st
     = (Some (JsError ''Cannot read properties of null (reading 'id')''), w, st)"
  by (simp add: check_slot_and_book_def)

lemma check_slot_error:
  "selectedSlot st = Some sel \<Longrightarrow> verifySlotAvailability cl (database w) (id_slot sel) = Inl err \<Longrightarrow>
   check_slot_and_book e cl w st
     = (Some err, w\<lparr>calls := calls w @ [Called_verifySlotAvailability (id_slot sel)]\<rparr>, st)"
  by (simp add: check_slot_and_book_def Let_def)

lemma check_slot_unavailable:
  "selectedSlot st = Some sel \<Longrightarrow> verifySlotAvailability cl (database w) (id_slot sel) = Inr False \<Longrightarrow>
   check_slot_and_book e cl w st
     = (None, w\<lparr>calls := calls w @ [Called_verifySlotAvailability (id_slot sel)]\<rparr>,
        st\<lparr>submitError := Some
              ''This slot has just been booked by someone else. Please select another time slot.'',
           selectedSlot := None, submitting := False\<rparr>)"
  by (simp add: check_slot_and_book_def Let_def)

lemma check_slot_available:
  "selectedSlot st = Some sel \<Longrightarrow> verifySlotAvailability cl (database w) (id_slot sel) = Inr True \<Longrightarrow>
   check_slot_and_book e cl w st
     = confirm_booking e cl (w\<lparr>calls := calls w @ [Called_verifySlotAvailability (id_slot sel)]\<rparr>) st sel"
  by (simp add: check_slot_and_book_def Let_def)

lemma check_slot_calls:
  "\<exists>new. calls (fst (snd (check_slot_and_book e cl w st))) = calls w @ new
     \<and> (\<forall>a. Called_getUserReservationCount a \<notin> set new)
     \<and> (Called_sendBookingConfirmationEmail \<in> set new \<longrightarrow>
          (\<exists>sel ref. selectedSlot st = Some sel
             \<and> fst (check_slot_and_book e cl w st) = None
             \<and> snd (snd (check_slot_and_book e cl w st))
                 = st\<lparr>confirmedBooking := Some \<lparr>confirmed_slot = sel, confirmed_user = formData st,
                              confirmed_reference = ref\<rparr>,
                        submitSuccess := True\<rparr>))"
proof (cases "selectedSlot st")
  case None
  then show ?thesis by (simp add: check_slot_none)
next
  case (Some sel)
  show ?thesis
  proof (cases "verifySlotAvailability cl (database w) (id_slot sel)")
    case (Inl err)
    with Some show ?thesis by (simp add: check_slot_error)
  next
    case (Inr available)
    show ?thesis
    proof (cases available)
      case False
      with Some Inr show ?thesis by (simp add: check_slot_unavailable)
    next
      case True
      let ?w = "w\<lparr>calls := calls w @ [Called_verifySlotAvailability (id_slot sel)]\<rparr>"
      from True Some Inr have eq: "check_slot_and_book e cl w st = confirm_booking e cl ?w st sel"
        by (simp add: check_slot_available)
      from confirm_booking_calls [of e cl ?w st sel]
      obtain new where new: "calls (fst (snd (confirm_booking e cl ?w st sel))) = calls ?w @ new"
        and no_count: "\<forall>a. Called_getUserReservationCount a \<notin> set new"
        and sent: "Called_sendBookingConfirmationEmail \<in> set new \<longrightarrow>
            fst (confirm_booking e cl ?w st sel) = None
            \<and> (\<exists>ref. snd (snd (confirm_booking e cl ?w st sel))
                 = st\<lparr>confirmedBooking := Some \<lparr>confirmed_slot = sel, confirmed_user = formData st,
                              confirmed_reference = ref\<rparr>,
                          submitSuccess := True\<rparr>)"
        by blast
      have "calls (fst (snd (check_slot_and_book e cl w st)))
              = calls w @ (Called_verifySlotAvailability (id_slot sel) # new)"
        using new by (simp add: eq)
      moreover have "\<forall>a. Called_getUserReservationCount a
              \<notin> set (Called_verifySlotAvailability (id_slot sel) # new)"
        using no_count by simp
      moreover have "Called_sendBookingConfirmationEmail
              \<in> set (Called_verifySlotAvailability (id_slot sel) # new) \<longrightarrow>
          (\<exists>sel ref. selectedSlot st = Some sel
             \<and> fst (check_slot_and_book e cl w st) = None
             \<and> snd (snd (check_slot_and_book e cl w st))
                 = st\<lparr>confirmedBooking := Some \<lparr>confirmed_slot = sel, confirmed_user = formData st,
                              confirmed_reference = ref\<rparr>,
                        submitSuccess := True\<rparr>)"
        using sent Some by (auto simp add: eq)
      ultimately show ?thesis by blast
    qed
  qed
qed

lemma submit_body_cases:
  "(\<exists>new. calls (fst (snd (submit_body e cl w st))) = calls w @ new
       \<and> (new = [] \<or> new = [Called_getUserReservationCount (email (formData st))])
       \<and> database (fst (snd (submit_body e cl w st))) = database w
       \<and> localStorage (fst (snd (submit_body e cl w st))) = localStorage w
       \<and> selectedSlot (snd (snd (submit_body e cl w st))) = selectedSlot st
       \<and> submitSuccess (snd (snd (submit_body e cl w st))) = submitSuccess st
       \<and> confirmedBooking (snd (snd (submit_body e cl w st))) = confirmedBooking st
       \<and> (\<forall>rc. new \<noteq> [] \<and> getUserReservationCount e (email (formData st)) = Inr rc
              \<and> success rc \<and> 1 \<le> count rc \<longrightarrow>
            fst (submit_body e cl w st) = None
            \<and> submitError (snd (snd (submit_body e cl w st))) = Some
                 ''You already have an active reservation. Please cancel your existing reservation before making a new one. You can manage your reservations in your profile page.''))
   \<or> (\<exists>w1 st1. submit_body e cl w st = check_slot_and_book e cl w1 st1
       \<and> database w1 = database w \<and> localStorage w1 = localStorage w
       \<and> (calls w1 = calls w
            \<or> calls w1 = calls w @ [Called_getUserReservationCount (email (formData st))]
              \<and> (\<exists>rc. getUserReservationCount e (email (formData st)) = Inr rc
                     \<and> \<not> (success rc \<and> 1 \<le> count rc)))
       \<and> selectedSlot st1 = selectedSlot st \<and> formData st1 = formData st
       \<and> submitError st1 = submitError st \<and> submitSuccess st1 = submitSuccess st
       \<and> confirmedBooking st1 = confirmedBooking st)"
  (is "?early \<or> ?reach")
proof (cases "validateBookingForm (formData st)")
  case (Invalid msg field)
  then have ?early by (simp add: submit_body_def)
  then show ?thesis ..
next
  case Valid
  show ?thesis
  proof (cases "isHumanVerified st")
    case False
    with Valid have ?early by (simp add: submit_body_def)
    then show ?thesis ..
  next
    case True
    show ?thesis
    proof (cases "email (formData st) = []")
      case True
      with Valid \<open>isHumanVerified st\<close> have "submit_body e cl w st = check_slot_and_book e cl w st"
        by (simp add: submit_body_def)
      then have ?reach by blast
      then show ?thesis ..
    next
      case False
      obtain rateLimit store where rl:
        "checkRateLimit (email (formData st)) (env_now e) (attemptStore w) = (rateLimit, store)"
        by (cases "checkRateLimit (email (formData st)) (env_now e) (attemptStore w)")
      show ?thesis
      proof (cases "limited rateLimit")
        case True
        with Valid \<open>isHumanVerified st\<close> False rl have ?early
          by (simp add: submit_body_def)
        then show ?thesis ..
      next
        case not_limited: False
        show ?thesis
        proof (cases "getUserReservationCount e (email (formData st))")
          case (Inl err)
          with Valid \<open>isHumanVerified st\<close> False rl not_limited have ?early
            by (simp add: submit_body_def Let_def)
          then show ?thesis ..
        next
          case (Inr rc)
          show ?thesis
          proof (cases "success rc \<and> count rc \<ge> 1")
            case True
            with Valid \<open>isHumanVerified st\<close> False rl not_limited Inr have ?early
              by (simp add: submit_body_def Let_def)
            then show ?thesis ..
          next
            case no_active: False
            let ?w = "w\<lparr>attemptStore := store,
                          calls := calls w @ [Called_getUserReservationCount (email (formData st))]\<rparr>"
            let ?st = "st\<lparr>rateLimitInfo := Some rateLimit, userReservationCount := Some rc\<rparr>"
            from Valid \<open>isHumanVerified st\<close> False rl not_limited Inr no_active
            have "submit_body e cl w st = check_slot_and_book e cl ?w ?st"
              by (auto simp add: submit_body_def Let_def)
            moreover have "database ?w = database w \<and> localStorage ?w = localStorage w
                \<and> calls ?w = calls w @ [Called_getUserReservationCount (email (formData st))]"
              by simp
            moreover have "selectedSlot ?st = selectedSlot st \<and> formData ?st = formData st
                \<and> submitError ?st = submitError st \<and> submitSuccess ?st = submitSuccess st
                \<and> confirmedBooking ?st = confirmedBooking st"
              by simp
            ultimately have ?reach using Inr no_active by blast
            then show ?thesis ..
          qed
        qed
      qed
    qed
  qed
qed

lemma submit_body_elim [case_names early reach]:
  assumes early: "\<And>new.
       calls (fst (snd (submit_body e cl w st))) = calls w @ new \<Longrightarrow>
       new = [] \<or> new = [Called_getUserReservationCount (email (formData st))] \<Longrightarrow>
       database (fst (snd (submit_body e cl w st))) = database w \<Longrightarrow>
       localStorage (fst (snd (submit_body e cl w st))) = localStorage w \<Longrightarrow>
       selectedSlot (snd (snd (submit_body e cl w st))) = selectedSlot st \<Longrightarrow>
       submitSuccess (snd (snd (submit_body e cl w st))) = submitSuccess st \<Longrightarrow>
       confirmedBooking (snd (snd (submit_body e cl w st))) = confirmedBooking st \<Longrightarrow>
       (\<forall>rc. new \<noteq> [] \<and> getUserReservationCount e (email (formData st)) = Inr rc
              \<and> success rc \<and> 1 \<le> count rc \<longrightarrow>
            fst (submit_body e cl w st) = None
            \<and> submitError (snd (snd (submit_body e cl w st))) = Some
                 ''You already have an active reservation. Please cancel your existing reservation before making a new one. You can manage your reservations in your profile page.'') \<Longrightarrow>
       thesis"
    and reach: "\<And>w1 st1.
       submit_body e cl w st = check_slot_and_book e cl w1 st1 \<Longrightarrow>
       database w1 = database w \<Longrightarrow> localStorage w1 = localStorage w \<Longrightarrow>
       calls w1 = calls w
         \<or> calls w1 = calls w @ [Called_getUserReservationCount (email (formData st))]
           \<and> (\<exists>rc. getUserReservationCount e (email (formData st)) = Inr rc
                  \<and> \<not> (success rc \<and> 1 \<le> count rc)) \<Longrightarrow>
       selectedSlot st1 = selectedSlot st \<Longrightarrow> formData st1 = formData st \<Longrightarrow>
       submitError st1 = submitError st \<Longrightarrow> submitSuccess st1 = submitSuccess st \<Longrightarrow>
       confirmedBooking st1 = confirmedBooking st \<Longrightarrow>
       thesis"
  shows thesis
  using submit_body_cases [of e cl w st]
proof (elim disjE exE)
  fix new
  assume "calls (fst (snd (submit_body e cl w st))) = calls w @ new
       \<and> (new = [] \<or> new = [Called_getUserReservationCount (email (formData st))])
       \<and> database (fst (snd (submit_body e cl w st))) = database w
       \<and> localStorage (fst (snd (submit_body e cl w st))) = localStorage w
       \<and> selectedSlot (snd (snd (submit_body e cl w st))) = selectedSlot st
       \<and> submitSuccess (snd (snd (submit_body e cl w st))) = submitSuccess st
       \<and> confirmedBooking (snd (snd (submit_body e cl w st))) = confirmedBooking st
       \<and> (\<forall>rc. new \<noteq> [] \<and> getUserReservationCount e (email (formData st)) = Inr rc
              \<and> success rc \<and> 1 \<le> count rc \<longrightarrow>
            fst (submit_body e cl w st) = None
            \<and> submitError (snd (snd (submit_body e cl w st))) = Some
                 ''You already have an active reservation. Please cancel your existing reservation before making a new one. You can manage your reservations in your profile page.'')"
  then show thesis
    by (intro early [of new]; blast)
next
  fix w1 st1
  assume "submit_body e cl w st = check_slot_and_book e cl w1 st1
       \<and> database w1 = database w \<and> localStorage w1 = localStorage w
       \<and> (calls w1 = calls w
            \<or> calls w1 = calls w @ [Called_getUserReservationCount (email (formData st))]
              \<and> (\<exists>rc. getUserReservationCount e (email (formData st)) = Inr rc
                     \<and> \<not> (success rc \<and> 1 \<le> count rc)))
       \<and> selectedSlot st1 = selectedSlot st \<and> formData st1 = formData st
       \<and> submitError st1 = submitError st \<and> submitSuccess st1 = submitSuccess st
       \<and> confirmedBooking st1 = confirmedBooking st"
  then show thesis
    by (intro reach [of w1 st1]; blast)
qed

lemma handleSubmit_eq:
  "submit_body e cl w (st\<lparr>submitting := True, submitError := None, formErrors := []\<rparr>)
     = (thrown, w', st') \<Longrightarrow>
   handleSubmit e cl (w, st) =
     (w', (case thrown of
             None \<Rightarrow> st'
           | Some err \<Rightarrow> st'\<lparr>submitError := Some (booking_error_message err)\<rparr>)
          \<lparr>submitting := False\<rparr>)"
  by (simp add: handleSubmit_def Let_def)

lemma calls_made_eq:
  "calls (fst (snd (submit_body e cl w (st\<lparr>submitting := True, submitError := None, formErrors := []\<rparr>))))
     = calls w @ new \<Longrightarrow> calls_made e cl (w, st) = new"
  by (cases "submit_body e cl w (st\<lparr>submitting := True, submitError := None, formErrors := []\<rparr>)")
     (simp add: calls_made_def handleSubmit_eq)

text \<open>
  C3 fails on the code. In every booking submission in which the handler makes the
  just-in-time check of the selected slot and \<open>verifySlotAvailability\<close> answers that the
  slot is unavailable, the handler clears the selection (\<open>selectedSlot\<close> becomes null)
  and neither registers the user nor creates a reservation: no such call is made, and the
  backend and \<open>localStorage\<close> are as before. It also sets \<open>submitError\<close> to 'This slot
  has just been booked by someone else...'; but the page renders that message only while
  a slot is selected, so with the selection cleared no error is shown to the user.
\<close>

theorem unavailable_slot_message_hidden:
  assumes chosen: "selectedSlot st = Some sel"
    and asked: "Called_verifySlotAvailability (id_slot sel) \<in> set (calls_made e cl (w, st))"
    and reply: "verifySlotAvailability cl (database w) (id_slot sel) = Inr False"
  shows "submitError (snd (handleSubmit e cl (w, st))) = Some
           ''This slot has just been booked by someone else. Please select another time slot.''
       \<and> selectedSlot (snd (handleSubmit e cl (w, st))) = None
       \<and> shown_error (snd (handleSubmit e cl (w, st))) = None
       \<and> \<not> submitting (snd (handleSubmit e cl (w, st)))
       \<and> submitSuccess (snd (handleSubmit e cl (w, st))) = submitSuccess st
       \<and> confirmedBooking (snd (handleSubmit e cl (w, st))) = confirmedBooking st
       \<and> database (fst (handleSubmit e cl (w, st))) = database w
       \<and> localStorage (fst (handleSubmit e cl (w, st))) = localStorage w
       \<and> (\<forall>u. Called_registerUser u \<notin> set (calls_made e cl (w, st)))
       \<and> (\<forall>s. Called_createReservation s \<notin> set (calls_made e cl (w, st)))"
proof (cases rule: submit_body_elim
    [of e cl w "st\<lparr>submitting := True, submitError := None, formErrors := []\<rparr>"])
  case (early new)
  from early(1) have "calls_made e cl (w, st) = new" by (rule calls_made_eq)
  with asked early(2) have False by auto
  then show ?thesis by blast
next
  case (reach w1 st1)
  let ?verify = "Called_verifySlotAvailability (id_slot sel)"
  from reach(5) chosen have chosen1: "selectedSlot st1 = Some sel" by simp
  from reply reach(2) have reply1: "verifySlotAvailability cl (database w1) (id_slot sel) = Inr False"
    by simp
  have result: "submit_body e cl w (st\<lparr>submitting := True, submitError := None, formErrors := []\<rparr>)
      = (None, w1\<lparr>calls := calls w1 @ [?verify]\<rparr>,
         st1\<lparr>submitError := Some
               ''This slot has just been booked by someone else. Please select another time slot.'',
             selectedSlot := None, submitting := False\<rparr>)"
    using check_slot_unavailable [OF chosen1 reply1] reach(1) by simp
  from reach(4) obtain before where before: "calls w1 = calls w @ before"
    and only_count: "before = [] \<or> before = [Called_getUserReservationCount (email (formData st))]"
    by auto
  have made: "calls_made e cl (w, st) = before @ [?verify]"
    by (rule calls_made_eq) (simp add: result before)
  from only_count show ?thesis
    by (auto simp add: handleSubmit_eq [OF result] made reach(2,3,8,9) shown_error_def)
qed

lemma example_valid: "validateBookingForm example_form = Valid"
  by (simp add: validateBookingForm_def validateEmail_def validateName_def validateGroupId_def
      validateNotes_def example_form_def trim_def is_space_def test_def emailRegex_def nameRegex_def
      groupIdRegex_def one_or_more_def is_letter_def is_digit_def)

lemma example_body_booked:
  "submit_body example_env anon_denied example_world
     (example_page\<lparr>selectedSlot := Some slot_as_selected, submitting := True, submitError := None,
                    formErrors := []\<rparr>)
   = check_slot_and_book example_env anon_denied
       (example_world\<lparr>attemptStore := [''bob@example.org'' \<mapsto> \<lparr>attempts = [], lastReset = 500\<rparr>],
                      calls := [Called_getUserReservationCount ''bob@example.org'']\<rparr>)
       (example_page\<lparr>selectedSlot := Some slot_as_selected, submitting := True, submitError := None,
                    formErrors := [],
                    rateLimitInfo := Some \<lparr>limited = False, remainingAttempts = Some 5,
                       timeUntilReset = Some 3600000, resetTime = Some 3600500\<rparr>,
                    userReservationCount := Some \<lparr>success = True, count = 0\<rparr>\<rparr>)"
  using example_valid
  by (simp add: submit_body_def example_page_def example_world_def example_env_def
      no_reservation_def checkRateLimit_def Let_def MAX_ATTEMPTS_def RATE_LIMIT_WINDOW_def
      example_form_def)

text \<open>
  The query with the public key is refused with code 42501, and the service-role client
  answers that the slot s2 is not available.
\<close>

lemma example_verify_booked:
  "verifySlotAvailability anon_denied example_backend ''s2'' = Inr False"
  by (simp add: verifySlotAvailability_def slot_availability_def select_slots_def single_def
      example_defs)

text \<open>
  Read with the public key under the row-level policy, the booked slot is not visible at
  all, and the check ends with the error of \<open>.single()\<close> instead of an answer.
\<close>

lemma example_verify_hidden:
  "verifySlotAvailability public_site example_backend ''s2''
     = Inl (Pg \<lparr>code = ''PGRST116'',
                message = ''JSON object requested, multiple (or no) rows returned''\<rparr>)"
  by (simp add: verifySlotAvailability_def slot_availability_def select_slots_def single_def
      example_defs)

theorem unavailable_slot_message_hidden_witness:
  "calls_made example_env anon_denied
       (example_world, example_page\<lparr>selectedSlot := Some slot_as_selected\<rparr>)
     = [Called_getUserReservationCount ''bob@example.org'', Called_verifySlotAvailability ''s2'']
   \<and> submitError (snd (handleSubmit example_env anon_denied
          (example_world, example_page\<lparr>selectedSlot := Some slot_as_selected\<rparr>))) = Some
        ''This slot has just been booked by someone else. Please select another time slot.''
   \<and> selectedSlot (snd (handleSubmit example_env anon_denied
          (example_world, example_page\<lparr>selectedSlot := Some slot_as_selected\<rparr>))) = None
   \<and> shown_error (snd (handleSubmit example_env anon_denied
          (example_world, example_page\<lparr>selectedSlot := Some slot_as_selected\<rparr>))) = None
   \<and> database (fst (handleSubmit example_env anon_denied
          (example_world, example_page\<lparr>selectedSlot := Some slot_as_selected\<rparr>))) = example_backend"
proof -
  let ?page = "example_page\<lparr>selectedSlot := Some slot_as_selected\<rparr>"
  have ident: "id_slot slot_as_selected = ''s2''"
    by (simp add: slot_as_selected_def slot_booked_def)
  have chosen: "selectedSlot ?page = Some slot_as_selected" by simp
  have reply: "verifySlotAvailability anon_denied (database example_world) (id_slot slot_as_selected)
      = Inr False"
    using example_verify_booked by (simp add: example_world_def ident)
  have body: "submit_body example_env anon_denied example_world
       (?page\<lparr>submitting := True, submitError := None, formErrors := []\<rparr>)
     = (None,
        example_world\<lparr>attemptStore := [''bob@example.org'' \<mapsto> \<lparr>attempts = [], lastReset = 500\<rparr>],
                      calls := [Called_getUserReservationCount ''bob@example.org'',
                                Called_verifySlotAvailability ''s2'']\<rparr>,
        example_page\<lparr>selectedSlot := None, submitting := False,
                    submitError := Some
                      ''This slot has just been booked by someone else. Please select another time slot.'',
                    formErrors := [],
                    rateLimitInfo := Some \<lparr>limited = False, remainingAttempts = Some 5,
                       timeUntilReset = Some 3600000, resetTime = Some 3600500\<rparr>,
                    userReservationCount := Some \<lparr>success = True, count = 0\<rparr>\<rparr>)"
    using example_body_booked example_verify_booked
    by (simp add: check_slot_and_book_def Let_def example_world_def ident example_page_def)
  have made: "calls_made example_env anon_denied (example_world, ?page)
      = [Called_getUserReservationCount ''bob@example.org'', Called_verifySlotAvailability ''s2'']"
    by (rule calls_made_eq) (simp add: body, simp add: example_world_def)
  then have asked: "Called_verifySlotAvailability (id_slot slot_as_selected)
      \<in> set (calls_made example_env anon_denied (example_world, ?page))"
    by (simp add: ident)
  from unavailable_slot_message_hidden [OF chosen asked reply] made
  show ?thesis by (simp add: example_world_def)
qed

text \<open>
  C9. For every booking submission in which the handler asks \<open>getUserReservationCount\<close>
  for the email address of the form and the answer is a success with a count of at least
  one, the handler rejects the submission with the message 'You already have an active
  reservation...'; the only call it makes is that query: the user is not registered, no
  reservation is created, and the backend and \<open>localStorage\<close> are as before.
\<close>

theorem active_reservation_rejected:
  assumes asked: "Called_getUserReservationCount (email (formData st))
                    \<in> set (calls_made e cl (w, st))"
    and reply: "getUserReservationCount e (email (formData st)) = Inr rc"
    and active: "success rc \<and> 1 \<le> count rc"
  shows "submitError (snd (handleSubmit e cl (w, st))) = Some
           ''You already have an active reservation. Please cancel your existing reservation before making a new one. You can manage your reservations in your profile page.''
       \<and> \<not> submitting (snd (handleSubmit e cl (w, st)))
       \<and> submitSuccess (snd (handleSubmit e cl (w, st))) = submitSuccess st
       \<and> confirmedBooking (snd (handleSubmit e cl (w, st))) = confirmedBooking st
       \<and> selectedSlot (snd (handleSubmit e cl (w, st))) = selectedSlot st
       \<and> database (fst (handleSubmit e cl (w, st))) = database w
       \<and> localStorage (fst (handleSubmit e cl (w, st))) = localStorage w
       \<and> calls_made e cl (w, st) = [Called_getUserReservationCount (email (formData st))]"
proof (cases rule: submit_body_elim
    [of e cl w "st\<lparr>submitting := True, submitError := None, formErrors := []\<rparr>"])
  case (early new)
  let ?st0 = "st\<lparr>submitting := True, submitError := None, formErrors := []\<rparr>"
  from early(1) have made: "calls_made e cl (w, st) = new" by (rule calls_made_eq)
  with asked early(2) have new: "new = [Called_getUserReservationCount (email (formData st))]"
    by auto
  with early(8) reply active have thrown: "fst (submit_body e cl w ?st0) = None"
    and msg: "submitError (snd (snd (submit_body e cl w ?st0))) = Some
           ''You already have an active reservation. Please cancel your existing reservation before making a new one. You can manage your reservations in your profile page.''"
    by auto
  obtain w' st' where body: "submit_body e cl w ?st0 = (None, w', st')"
    using thrown by (cases "submit_body e cl w ?st0") auto
  from early(3,4,5,6,7) msg show ?thesis
    by (simp add: handleSubmit_eq [OF body] body made new)
next
  case (reach w1 st1)
  let ?st0 = "st\<lparr>submitting := True, submitError := None, formErrors := []\<rparr>"
  from reach(4) reply active have same: "calls w1 = calls w" by auto
  from check_slot_calls [of e cl w1 st1] obtain new
    where new: "calls (fst (snd (check_slot_and_book e cl w1 st1))) = calls w1 @ new"
      and no_count: "\<forall>a. Called_getUserReservationCount a \<notin> set new"
    by blast
  from new same reach(1) have "calls (fst (snd (submit_body e cl w ?st0))) = calls w @ new"
    by simp
  then have "calls_made e cl (w, st) = new" by (rule calls_made_eq)
  with asked no_count have False by simp
  then show ?thesis by blast
qed

theorem active_reservation_rejected_witness:
  "calls_made (example_env\<lparr>getUserReservationCount := one_reservation\<rparr>) with_service_key
       (example_world, example_page)
     = [Called_getUserReservationCount ''bob@example.org'']
   \<and> submitError (snd (handleSubmit (example_env\<lparr>getUserReservationCount := one_reservation\<rparr>)
          with_service_key (example_world, example_page))) = Some
        ''You already have an active reservation. Please cancel your existing reservation before making a new one. You can manage your reservations in your profile page.''
   \<and> database (fst (handleSubmit (example_env\<lparr>getUserReservationCount := one_reservation\<rparr>)
          with_service_key (example_world, example_page))) = example_backend"
proof -
  let ?env = "example_env\<lparr>getUserReservationCount := one_reservation\<rparr>"
  have reply: "getUserReservationCount ?env (email (formData example_page))
      = Inr \<lparr>success = True, count = 1\<rparr>"
    by (simp add: one_reservation_def)
  have active: "success \<lparr>success = True, count = 1\<rparr> \<and> 1 \<le> count \<lparr>success = True, count = 1\<rparr>"
    by simp
  have body: "calls (fst (snd (submit_body ?env with_service_key example_world
       (example_page\<lparr>submitting := True, submitError := None, formErrors := []\<rparr>))))
     = calls example_world @ [Called_getUserReservationCount ''bob@example.org'']"
    using example_valid
    by (simp add: submit_body_def example_page_def example_world_def example_env_def
        one_reservation_def checkRateLimit_def Let_def MAX_ATTEMPTS_def RATE_LIMIT_WINDOW_def
        example_form_def)
  have made: "calls_made ?env with_service_key (example_world, example_page)
      = [Called_getUserReservationCount ''bob@example.org'']"
    using body by (rule calls_made_eq)
  then have asked: "Called_getUserReservationCount (email (formData example_page))
      \<in> set (calls_made ?env with_service_key (example_world, example_page))"
    by (simp add: example_page_def example_form_def)
  from active_reservation_rejected [OF asked reply active] made
  show ?thesis by (simp add: example_world_def)
qed

section \<open>Properties of the confirmation email\<close>

lemma email_result_total:
  "\<exists>r. sendBookingConfirmationEmail e bookingData = Inr r \<and> (\<forall>msg. r = Email_failed msg \<longrightarrow> msg \<noteq> [])"
proof (cases "confirmation_body e bookingData")
  case (Inl err)
  then show ?thesis
    by (cases "exn_message err") (simp_all add: sendBookingConfirmationEmail_def or_else_def)
next
  case (Inr r)
  show ?thesis
  proof (cases r)
    case (Email_sent ref)
    with Inr show ?thesis by (simp add: sendBookingConfirmationEmail_def)
  next
    case (Email_failed msg)
    with Inr have "msg = ''Email service not configured''"
      by (auto simp add: confirmation_body_def Let_def
          split: if_splits option.splits prod.splits sum.splits)
    with Inr Email_failed show ?thesis by (simp add: sendBookingConfirmationEmail_def)
  qed
qed

lemma email_not_configured:
  "EMAIL_SERVICE_ID (email_settings e) = [] \<or> EMAIL_TEMPLATE_ID (email_settings e) = []
     \<or> EMAIL_PUBLIC_KEY (email_settings e) = [] \<Longrightarrow>
   sendBookingConfirmationEmail e bookingData = Inr (Email_failed ''Email service not configured'')"
  by (auto simp add: sendBookingConfirmationEmail_def confirmation_body_def)

lemma email_exception_caught:
  "confirmation_body e bookingData = Inl err \<Longrightarrow>
   sendBookingConfirmationEmail e bookingData =
     Inr (Email_failed (case exn_message err of
                          None \<Rightarrow> ''Unknown error sending email''
                        | Some m \<Rightarrow> or_else m ''Unknown error sending email''))"
  by (simp add: sendBookingConfirmationEmail_def)

lemma booking_confirmed_when_email_sent:
  assumes sent: "Called_sendBookingConfirmationEmail \<in> set (calls_made e cl (w, st))"
  shows "submitSuccess (snd (handleSubmit e cl (w, st)))
       \<and> submitError (snd (handleSubmit e cl (w, st))) = None
       \<and> \<not> submitting (snd (handleSubmit e cl (w, st)))
       \<and> (\<exists>sel ref. selectedSlot st = Some sel
             \<and> confirmedBooking (snd (handleSubmit e cl (w, st)))
                 = Some \<lparr>confirmed_slot = sel, confirmed_user = formData st,
                         confirmed_reference = ref\<rparr>)"
proof (cases rule: submit_body_elim
    [of e cl w "st\<lparr>submitting := True, submitError := None, formErrors := []\<rparr>"])
  case (early new)
  from early(1) have "calls_made e cl (w, st) = new" by (rule calls_made_eq)
  with sent early(2) have False by auto
  then show ?thesis by blast
next
  case (reach w1 st1)
  let ?st0 = "st\<lparr>submitting := True, submitError := None, formErrors := []\<rparr>"
  from check_slot_calls [of e cl w1 st1] obtain new
    where new: "calls (fst (snd (check_slot_and_book e cl w1 st1))) = calls w1 @ new"
      and if_sent: "Called_sendBookingConfirmationEmail \<in> set new \<longrightarrow>
          (\<exists>sel ref. selectedSlot st1 = Some sel
             \<and> fst (check_slot_and_book e cl w1 st1) = None
             \<and> snd (snd (check_slot_and_book e cl w1 st1))
                 = st1\<lparr>confirmedBooking := Some \<lparr>confirmed_slot = sel, confirmed_user = formData st1,
                              confirmed_reference = ref\<rparr>,
                        submitSuccess := True\<rparr>)"
    by blast
  from reach(4) obtain before where before: "calls w1 = calls w @ before"
    and only_count: "before = [] \<or> before = [Called_getUserReservationCount (email (formData ?st0))]"
    by auto
  from new before reach(1)
  have "calls (fst (snd (submit_body e cl w ?st0))) = calls w @ (before @ new)" by simp
  then have "calls_made e cl (w, st) = before @ new" by (rule calls_made_eq)
  with sent only_count have "Called_sendBookingConfirmationEmail \<in> set new" by auto
  with if_sent obtain sel ref where sel: "selectedSlot st1 = Some sel"
    and none: "fst (check_slot_and_book e cl w1 st1) = None"
    and state: "snd (snd (check_slot_and_book e cl w1 st1))
                 = st1\<lparr>confirmedBooking := Some \<lparr>confirmed_slot = sel, confirmed_user = formData st1,
                              confirmed_reference = ref\<rparr>,
                        submitSuccess := True\<rparr>"
    by blast
  obtain w' where body: "submit_body e cl w ?st0
      = (None, w', st1\<lparr>confirmedBooking := Some \<lparr>confirmed_slot = sel, confirmed_user = formData st1,
                              confirmed_reference = ref\<rparr>,
                        submitSuccess := True\<rparr>)"
    using none state reach(1) by (cases "check_slot_and_book e cl w1 st1") auto
  from sel reach(5,6,7) show ?thesis
    by (simp add: handleSubmit_eq [OF body])
qed

lemma registerUser_email_free:
  "registerUser (e\<lparr>email_settings := cfg, emailjs_send := sender, email_delayed := d\<rparr>) cl db storage u
     = registerUser e cl db storage u"
  by (simp add: registerUser_def register_body_def generateUserToken_def sign_jwt_def Let_def
      cong: if_cong option.case_cong sum.case_cong prod.case_cong)

lemma createReservation_email_free:
  "createReservation (e\<lparr>email_settings := cfg, emailjs_send := sender, email_delayed := d\<rparr>) cl db sid fd
     = createReservation e cl db sid fd"
  by (simp add: createReservation_def Let_def
      cong: if_cong option.case_cong sum.case_cong prod.case_cong)

lemma confirm_booking_email_free:
  "fst (confirm_booking (e\<lparr>email_settings := cfg, emailjs_send := sender, email_delayed := d\<rparr>) cl w st sel)
     = fst (confirm_booking e cl w st sel)
   \<and> snd (snd (confirm_booking (e\<lparr>email_settings := cfg, emailjs_send := sender, email_delayed := d\<rparr>) cl w st sel))
     = snd (snd (confirm_booking e cl w st sel))
   \<and> (fst (snd (confirm_booking (e\<lparr>email_settings := cfg, emailjs_send := sender, email_delayed := d\<rparr>) cl w st sel)))
        \<lparr>console := []\<rparr>
     = (fst (snd (confirm_booking e cl w st sel)))\<lparr>console := []\<rparr>"
  by (simp add: confirm_booking_def Let_def registerUser_email_free createReservation_email_free
      split: prod.splits registration.splits sum.splits)


lemma check_slot_email_free:
  "fst (check_slot_and_book (e\<lparr>email_settings := cfg, emailjs_send := sender, email_delayed := d\<rparr>) cl w st)
     = fst (check_slot_and_book e cl w st)
   \<and> snd (snd (check_slot_and_book (e\<lparr>email_settings := cfg, emailjs_send := sender, email_delayed := d\<rparr>) cl w st))
     = snd (snd (check_slot_and_book e cl w st))
   \<and> (fst (snd (check_slot_and_book (e\<lparr>email_settings := cfg, emailjs_send := sender, email_delayed := d\<rparr>) cl w st)))
        \<lparr>console := []\<rparr>
     = (fst (snd (check_slot_and_book e cl w st)))\<lparr>console := []\<rparr>"
  using confirm_booking_email_free [where e = e and cfg = cfg and sender = sender and d = d and cl = cl]
  by (simp add: check_slot_and_book_def Let_def split: option.splits sum.splits)

lemma submit_body_email_free:
  "fst (submit_body (e\<lparr>email_settings := cfg, emailjs_send := sender, email_delayed := d\<rparr>) cl w st)
     = fst (submit_body e cl w st)
   \<and> snd (snd (submit_body (e\<lparr>email_settings := cfg, emailjs_send := sender, email_delayed := d\<rparr>) cl w st))
     = snd (snd (submit_body e cl w st))
   \<and> (fst (snd (submit_body (e\<lparr>email_settings := cfg, emailjs_send := sender, email_delayed := d\<rparr>) cl w st)))
        \<lparr>console := []\<rparr>
     = (fst (snd (submit_body e cl w st)))\<lparr>console := []\<rparr>"
  using check_slot_email_free [where e = e and cfg = cfg and sender = sender and d = d and cl = cl]
  by (simp add: submit_body_def Let_def split: validation.splits prod.splits sum.splits)

lemma handleSubmit_email_free:
  "snd (handleSubmit (e\<lparr>email_settings := cfg, emailjs_send := sender, email_delayed := d\<rparr>) cl (w, st))
     = snd (handleSubmit e cl (w, st))
   \<and> (fst (handleSubmit (e\<lparr>email_settings := cfg, emailjs_send := sender, email_delayed := d\<rparr>) cl (w, st)))
        \<lparr>console := []\<rparr>
     = (fst (handleSubmit e cl (w, st)))\<lparr>console := []\<rparr>"
proof -
  let ?e = "e\<lparr>email_settings := cfg, emailjs_send := sender, email_delayed := d\<rparr>"
  let ?st0 = "st\<lparr>submitting := True, submitError := None, formErrors := []\<rparr>"
  obtain t w1 s1 where a: "submit_body e cl w ?st0 = (t, w1, s1)"
    by (cases "submit_body e cl w ?st0")
  obtain t' w1' s1' where b: "submit_body ?e cl w ?st0 = (t', w1', s1')"
    by (cases "submit_body ?e cl w ?st0")
  from submit_body_email_free [where e = e and cfg = cfg and sender = sender and d = d and cl = cl
      and w = w and st = ?st0] a b
  have "t' = t" "s1' = s1" "w1'\<lparr>console := []\<rparr> = w1\<lparr>console := []\<rparr>" by simp_all
  with a b have "submit_body ?e cl w ?st0 = (t, w1', s1)" by simp
  from handleSubmit_eq [OF this] handleSubmit_eq [OF a]
    \<open>w1'\<lparr>console := []\<rparr> = w1\<lparr>console := []\<rparr>\<close>
  show ?thesis by simp
qed

lemma example_reference:
  "generateBookingReference \<lparr>getFullYear = 2026, getMonth = 10, getDate = 3\<rparr> half
     = ''ADR-20261103-SSSS''"
  by (simp add: generateBookingReference_def toString_def to_radix.simps padStart_def
      charAt_def characters_def digit_chars_def upt_rec half_def)

lemma example_verify_free:
  "verifySlotAvailability with_service_key example_backend ''s1'' = Inr True"
  by (simp add: verifySlotAvailability_def slot_availability_def select_slots_def single_def
      example_defs)

lemma example_register:
  "registerUser (example_env\<lparr>emailjs_send := send_rejected\<rparr>) with_service_key example_backend
     Map.empty \<lparr>name = ''Bob'', email = ''bob@example.org'', groupId = ''g2''\<rparr>
   = (Registered \<lparr>name = ''Bob'', email = ''bob@example.org'', groupId = ''g2''\<rparr>
        \<lparr>alg = ''HS256'',
         payload = [(''role'', ''user''), (''id'', ''u1''), (''email'', ''bob@example.org''),
                    (''name'', ''Bob'')],
         iat_claim = 0, exp_claim = 2592000, signed_with = ''admin-secret-key''\<rparr> ''u1'' True,
      example_backend\<lparr>users := [\<lparr>id_user = ''u1'', email_user = ''bob@example.org'',
                                   name_user = ''Bob'', group_id_user = ''g2''\<rparr>]\<rparr>,
      [''userData'' \<mapsto> Stored_user \<lparr>name = ''Bob'', email = ''bob@example.org'', groupId = ''g2''\<rparr>,
       ''user_token'' \<mapsto> Stored_token \<lparr>alg = ''HS256'',
         payload = [(''role'', ''user''), (''id'', ''u1''), (''email'', ''bob@example.org''),
                    (''name'', ''Bob'')],
         iat_claim = 0, exp_claim = 2592000, signed_with = ''admin-secret-key''\<rparr>])"
  by (simp add: registerUser_def register_body_def generateUserToken_def sign_jwt_def
      select_users_def insert_user_def single_def USER_DATA_KEY_def USER_TOKEN_KEY_def
      example_env_def example_defs Let_def)


lemma example_create:
  "createReservation (example_env\<lparr>emailjs_send := send_rejected\<rparr>) with_service_key
     (example_backend\<lparr>users := [\<lparr>id_user = ''u1'', email_user = ''bob@example.org'',
                                   name_user = ''Bob'', group_id_user = ''g2''\<rparr>]\<rparr>)
     ''s1'' example_form
   = (Inr \<lparr>id_reservation = ''r2'', slot_id = Some ''s1'', user_name = ''Bob'',
           user_email = ''bob@example.org'', group_id = ''g2'', notes_reservation = [],
           reference = ''ADR-20261103-SSSS'', status = ''confirmed'', status_reason = []\<rparr>,
      example_backend\<lparr>users := [\<lparr>id_user = ''u1'', email_user = ''bob@example.org'',
                                   name_user = ''Bob'', group_id_user = ''g2''\<rparr>],
        reservations := [booking_r1,
          \<lparr>id_reservation = ''r2'', slot_id = Some ''s1'', user_name = ''Bob'',
           user_email = ''bob@example.org'', group_id = ''g2'', notes_reservation = [],
           reference = ''ADR-20261103-SSSS'', status = ''confirmed'', status_reason = []\<rparr>],
        slots := [slot_free\<lparr>is_available := False\<rparr>, slot_booked]\<rparr>)"
  using example_reference
  by (simp add: createReservation_def insert_reservation_def update_slots_def Let_def
      example_env_def example_form_def example_defs)

lemma example_email_fails:
  "sendBookingConfirmationEmail (example_env\<lparr>emailjs_send := send_rejected\<rparr>)
     (Some \<lparr>booking_user = Some example_form,
            booking_slot = Some \<lparr>slot_date = None,
              slot_start_time = Some ''1970-01-01T00:00:01.000Z'', slot_duration = None\<rparr>,
            booking_ref = Some ''ADR-20261103-SSSS''\<rparr>)
   = Inr (Email_failed ''Unknown error sending email'')"
  by (simp add: sendBookingConfirmationEmail_def confirmation_body_def format_booking_date_def
      truthy_def or_else_def Let_def example_env_def example_form_def send_rejected_def
      example_parse_def example_format_def)


lemma example_submit:
  "submit_body (example_env\<lparr>emailjs_send := send_rejected\<rparr>) with_service_key example_world
     (example_page\<lparr>submitting := True, submitError := None, formErrors := []\<rparr>)
   = confirm_booking (example_env\<lparr>emailjs_send := send_rejected\<rparr>) with_service_key
       (example_world\<lparr>attemptStore := [''bob@example.org'' \<mapsto> \<lparr>attempts = [], lastReset = 500\<rparr>],
                      calls := [Called_getUserReservationCount ''bob@example.org'',
                                Called_verifySlotAvailability ''s1'']\<rparr>)
       (example_page\<lparr>submitting := True, submitError := None, formErrors := [],
                    rateLimitInfo := Some \<lparr>limited = False, remainingAttempts = Some 5,
                       timeUntilReset = Some 3600000, resetTime = Some 3600500\<rparr>,
                    userReservationCount := Some \<lparr>success = True, count = 0\<rparr>\<rparr>)
       slot_free"
  using example_valid example_verify_free
  by (simp add: submit_body_def check_slot_and_book_def example_page_def example_world_def
      example_env_def no_reservation_def checkRateLimit_def Let_def MAX_ATTEMPTS_def
      RATE_LIMIT_WINDOW_def example_form_def slot_free_def)

lemma example_calls:
  "calls_made (example_env\<lparr>emailjs_send := send_rejected\<rparr>) with_service_key
     (example_world, example_page)
   = [Called_getUserReservationCount ''bob@example.org'', Called_verifySlotAvailability ''s1'',
      Called_registerUser \<lparr>name = ''Bob'', email = ''bob@example.org'', groupId = ''g2''\<rparr>,
      Called_createReservation ''s1'', Called_sendBookingConfirmationEmail]"
proof (rule calls_made_eq)
  let ?w = "example_world\<lparr>attemptStore := [''bob@example.org'' \<mapsto> \<lparr>attempts = [], lastReset = 500\<rparr>],
                      calls := [Called_getUserReservationCount ''bob@example.org'',
                                Called_verifySlotAvailability ''s1'']\<rparr>"
  let ?st = "example_page\<lparr>submitting := True, submitError := None, formErrors := [],
                    rateLimitInfo := Some \<lparr>limited = False, remainingAttempts = Some 5,
                       timeUntilReset = Some 3600000, resetTime = Some 3600500\<rparr>,
                    userReservationCount := Some \<lparr>success = True, count = 0\<rparr>\<rparr>"
  have "calls (fst (snd (confirm_booking (example_env\<lparr>emailjs_send := send_rejected\<rparr>)
            with_service_key ?w ?st slot_free)))
      = [Called_getUserReservationCount ''bob@example.org'', Called_verifySlotAvailability ''s1'',
         Called_registerUser \<lparr>name = ''Bob'', email = ''bob@example.org'', groupId = ''g2''\<rparr>,
         Called_createReservation ''s1'', Called_sendBookingConfirmationEmail]"
    by (simp add: confirm_booking_def Let_def recordAttempt_def
      registerUser_def register_body_def generateUserToken_def sign_jwt_def
      select_users_def insert_user_def single_def USER_DATA_KEY_def USER_TOKEN_KEY_def
      createReservation_def insert_reservation_def update_slots_def example_reference
      example_env_def example_world_def example_page_def example_form_def example_defs)
  then show "calls (fst (snd (submit_body (example_env\<lparr>emailjs_send := send_rejected\<rparr>)
        with_service_key example_world
        (example_page\<lparr>submitting := True, submitError := None, formErrors := []\<rparr>))))
     = calls example_world @
       [Called_getUserReservationCount ''bob@example.org'', Called_verifySlotAvailability ''s1'',
        Called_registerUser \<lparr>name = ''Bob'', email = ''bob@example.org'', groupId = ''g2''\<rparr>,
        Called_createReservation ''s1'', Called_sendBookingConfirmationEmail]"
    by (simp add: example_submit) (simp add: example_world_def)
qed


text \<open>
  C8. \<open>sendBookingConfirmationEmail\<close> never throws: for every environment and every
  booking data it returns a result, and a failure result carries a non-empty error text.
  With an unconfigured email service the result is the failure 'Email service not
  configured'; an exception raised in its body (a rejected or refused send, missing booking
  data) is turned into a failure result. In the booking flow, whenever the handler gets as
  far as sending the confirmation email the booking is marked as confirmed
  (\<open>submitSuccess\<close> is true, there is no error, the confirmed booking is stored), and the
  state of the page and the backend after a submission do not depend on the configuration
  or the answer of the email service at all.
\<close>

theorem confirmation_email_never_blocks:
  "(\<exists>r. sendBookingConfirmationEmail e bookingData = Inr r
         \<and> (\<forall>msg. r = Email_failed msg \<longrightarrow> msg \<noteq> []))
   \<and> (EMAIL_SERVICE_ID (email_settings e) = [] \<or> EMAIL_TEMPLATE_ID (email_settings e) = []
         \<or> EMAIL_PUBLIC_KEY (email_settings e) = [] \<longrightarrow>
        sendBookingConfirmationEmail e bookingData
          = Inr (Email_failed ''Email service not configured''))
   \<and> (\<forall>err. confirmation_body e bookingData = Inl err \<longrightarrow>
          (\<exists>msg. sendBookingConfirmationEmail e bookingData = Inr (Email_failed msg)))
   \<and> (Called_sendBookingConfirmationEmail \<in> set (calls_made e cl (w, st)) \<longrightarrow>
        submitSuccess (snd (handleSubmit e cl (w, st)))
        \<and> submitError (snd (handleSubmit e cl (w, st))) = None
        \<and> (\<exists>sel ref. selectedSlot st = Some sel
               \<and> confirmedBooking (snd (handleSubmit e cl (w, st)))
                   = Some \<lparr>confirmed_slot = sel, confirmed_user = formData st,
                           confirmed_reference = ref\<rparr>))
   \<and> snd (handleSubmit (e\<lparr>email_settings := cfg, emailjs_send := sender, email_delayed := d\<rparr>)
            cl (w, st))
       = snd (handleSubmit e cl (w, st))
   \<and> database (fst (handleSubmit
            (e\<lparr>email_settings := cfg, emailjs_send := sender, email_delayed := d\<rparr>) cl (w, st)))
       = database (fst (handleSubmit e cl (w, st)))"
proof -
  have caught: "\<forall>err. confirmation_body e bookingData = Inl err \<longrightarrow>
          (\<exists>msg. sendBookingConfirmationEmail e bookingData = Inr (Email_failed msg))"
    by (simp add: email_exception_caught)
  have sent: "Called_sendBookingConfirmationEmail \<in> set (calls_made e cl (w, st)) \<longrightarrow>
        submitSuccess (snd (handleSubmit e cl (w, st)))
        \<and> submitError (snd (handleSubmit e cl (w, st))) = None
        \<and> (\<exists>sel ref. selectedSlot st = Some sel
               \<and> confirmedBooking (snd (handleSubmit e cl (w, st)))
                   = Some \<lparr>confirmed_slot = sel, confirmed_user = formData st,
                           confirmed_reference = ref\<rparr>)"
    using booking_confirmed_when_email_sent [of e cl w st] by blast
  let ?e = "e\<lparr>email_settings := cfg, emailjs_send := sender, email_delayed := d\<rparr>"
  from handleSubmit_email_free [where e = e and cfg = cfg and sender = sender and d = d
      and cl = cl and w = w and st = st]
  have state: "snd (handleSubmit ?e cl (w, st)) = snd (handleSubmit e cl (w, st))"
    and world: "(fst (handleSubmit ?e cl (w, st)))\<lparr>console := []\<rparr>
              = (fst (handleSubmit e cl (w, st)))\<lparr>console := []\<rparr>"
    by simp_all
  have "database ((fst (handleSubmit ?e cl (w, st)))\<lparr>console := []\<rparr>)
      = database ((fst (handleSubmit e cl (w, st)))\<lparr>console := []\<rparr>)"
    by (simp only: world)
  then have db: "database (fst (handleSubmit ?e cl (w, st))) = database (fst (handleSubmit e cl (w, st)))"
    by simp
  from email_result_total [of e bookingData] email_not_configured [of e bookingData]
    caught sent state db
  show ?thesis by blast
qed

theorem confirmation_email_never_blocks_witness:
  "sendBookingConfirmationEmail (example_env\<lparr>emailjs_send := send_rejected\<rparr>)
     (Some \<lparr>booking_user = Some example_form,
            booking_slot = Some \<lparr>slot_date = None,
              slot_start_time = Some ''1970-01-01T00:00:01.000Z'', slot_duration = None\<rparr>,
            booking_ref = Some ''ADR-20261103-SSSS''\<rparr>)
     = Inr (Email_failed ''Unknown error sending email'')
   \<and> Called_sendBookingConfirmationEmail
       \<in> set (calls_made (example_env\<lparr>emailjs_send := send_rejected\<rparr>) with_service_key
                 (example_world, example_page))
   \<and> submitSuccess (snd (handleSubmit (example_env\<lparr>emailjs_send := send_rejected\<rparr>)
          with_service_key (example_world, example_page)))
   \<and> submitError (snd (handleSubmit (example_env\<lparr>emailjs_send := send_rejected\<rparr>)
          with_service_key (example_world, example_page))) = None"
proof -
  have asked: "Called_sendBookingConfirmationEmail
       \<in> set (calls_made (example_env\<lparr>emailjs_send := send_rejected\<rparr>) with_service_key
                 (example_world, example_page))"
    by (simp add: example_calls)
  from confirmation_email_never_blocks
    [where e = "example_env\<lparr>emailjs_send := send_rejected\<rparr>" and cl = with_service_key
      and w = example_world and st = example_page] asked
  have "submitSuccess (snd (handleSubmit (example_env\<lparr>emailjs_send := send_rejected\<rparr>)
          with_service_key (example_world, example_page)))
   \<and> submitError (snd (handleSubmit (example_env\<lparr>emailjs_send := send_rejected\<rparr>)
          with_service_key (example_world, example_page))) = None"
    by blast
  with asked example_email_fails show ?thesis by blast
qed

end
